theory Spec2Isabelle
  imports Complex_Main
begin

section \<open>The Crossmon design notebook\<close>

text \<open>
  The repository is one Jupyter notebook, \<^verbatim>\<open>1qubit_CrossmonExample.ipynb\<close>. Its code cells
  are modelled as state transformers on the state of the Python kernel. The closed-form
  expressions are given twice: read in exact arithmetic on the real numbers, which is the
  reading of the run of the notebook below, and as the kernel evaluates them, on IEEE 754
  binary64 numbers with their rounding, overflow and underflow.
\<close>

subsection \<open>Arithmetic that can fail\<close>

text \<open>
  Python's \<^verbatim>\<open>/\<close> on floats raises \<^verbatim>\<open>ZeroDivisionError\<close> for a zero divisor. On a numpy
  scalar (the value of \<^verbatim>\<open>np.sqrt\<close>) a zero divisor is signalled as "divide by zero" and the
  square root of a negative number as "invalid value"; the exact reading, which has no
  infinity and no NaN to go on with, stops there. \<^verbatim>\<open>OverflowError\<close> is raised by \<^verbatim>\<open>**\<close> and
  arises in binary64 only.
\<close>

datatype fault = ZeroDivisionError | DivideByZero | InvalidValue | OverflowError

definition py_truediv :: "real \<Rightarrow> real \<Rightarrow> fault + real" where
  "py_truediv a b = (if b = 0 then Inl ZeroDivisionError else Inr (a / b))"

definition np_truediv :: "real \<Rightarrow> real \<Rightarrow> fault + real" where
  "np_truediv a b = (if b = 0 then Inl DivideByZero else Inr (a / b))"

definition np_sqrt :: "real \<Rightarrow> fault + real" where
  "np_sqrt x = (if x < 0 then Inl InvalidValue else Inr (sqrt x))"

definition and_then :: "fault + 'a \<Rightarrow> ('a \<Rightarrow> fault + 'b) \<Rightarrow> fault + 'b" where
  "and_then r k = (case r of Inl err \<Rightarrow> Inl err | Inr v \<Rightarrow> k v)"

subsection \<open>The closed-form expressions in exact arithmetic\<close>

text \<open>\<^verbatim>\<open>C=e**2/2/h/alpha\<close>\<close>

definition derive_C :: "real \<Rightarrow> real \<Rightarrow> real \<Rightarrow> fault + real" where
  "derive_C e h alpha =
     and_then (py_truediv (e ^ 2) 2) (\<lambda>a.
     and_then (py_truediv a h) (\<lambda>b.
     py_truediv b alpha))"

text \<open>\<^verbatim>\<open>L=1/C/(2*np.pi*f)**2\<close>\<close>

definition derive_L :: "real \<Rightarrow> real \<Rightarrow> fault + real" where
  "derive_L C f =
     and_then (py_truediv 1 C) (\<lambda>a.
     py_truediv a ((2 * pi * f) ^ 2))"

text \<open>\<^verbatim>\<open>f=1/np.sqrt(13e-9*78e-15)/2/np.pi\<close>, with the two literals as parameters.\<close>

definition check_f :: "real \<Rightarrow> real \<Rightarrow> fault + real" where
  "check_f L C =
     and_then (np_sqrt (L * C)) (\<lambda>r.
     and_then (np_truediv 1 r) (\<lambda>a.
     and_then (np_truediv a 2) (\<lambda>b.
     np_truediv b pi)))"

text \<open>The constants of the first code cell.\<close>

definition e_charge :: real where
  "e_charge = 1.60217657 / 10 ^ 19"

definition h_planck :: real where
  "h_planck = 6.62606957 / 10 ^ 34"

definition alpha_target :: real where
  "alpha_target = 250 * 10 ^ 6"

definition f_target :: real where
  "f_target = 5 * 10 ^ 9"

text \<open>The derivation as one step: both values, or the first fault.\<close>

definition derive :: "real \<Rightarrow> real \<Rightarrow> real \<Rightarrow> real \<Rightarrow> fault + (real \<times> real)" where
  "derive e h alpha f =
     and_then (derive_C e h alpha) (\<lambda>C.
     and_then (derive_L C f) (\<lambda>L. Inr (C, L)))"

subsection \<open>Quantities written as strings\<close>

text \<open>
  The CAD framework and the simulator take quantities as strings: a decimal number, optional
  blanks and a unit, such as \<^verbatim>\<open>'13nH'\<close> and \<^verbatim>\<open>'13 nH'\<close>. Only the units that occur in the
  notebook are given a scale.
\<close>

definition unit_scale :: "string \<Rightarrow> real option" where
  "unit_scale u =
     (if u = ''nH'' then Some (1 / 10 ^ 9)
      else if u = ''fF'' then Some (1 / 10 ^ 15)
      else if u = ''um'' then Some (1 / 10 ^ 6)
      else if u = ''mm'' then Some (1 / 10 ^ 3)
      else None)"

definition is_digit :: "char \<Rightarrow> bool" where
  "is_digit c = (48 \<le> (of_char c :: nat) \<and> (of_char c :: nat) \<le> 57)"

definition digits_value :: "string \<Rightarrow> nat" where
  "digits_value ds = foldl (\<lambda>n c. 10 * n + (of_char c - 48)) 0 ds"

definition quantity :: "string \<Rightarrow> real option" where
  "quantity str =
     (let ds = takeWhile is_digit str;
          u = dropWhile (\<lambda>c. c = CHR '' '') (dropWhile is_digit str)
      in if ds = [] then None
         else map_option (\<lambda>k. real (digits_value ds) * k) (unit_scale u))"

subsection \<open>The kernel state and the outside world\<close>

datatype renderer = Q3D | HFSS

record component =
  comp_class :: string
  comp_name :: string
  comp_options :: "(string \<times> string) list"

record design_planar =
  overwrite_enabled :: bool
  components :: "component list"

text \<open>The fields of \<^verbatim>\<open>eig_1qb.sim.setup\<close> that the notebook assigns.\<close>

record eigenmode_setup =
  max_passes :: nat
  max_delta_f :: real
  min_freq_ghz :: nat
  n_modes :: nat
  setup_vars :: "(string \<times> string) list"

text \<open>
  What the notebook cannot decide: the answers of the simulator and the defaults of the
  library's setup object. The calls into the CAD framework, the GUI and the simulator are
  taken to return; what they do inside is not part of the repository.
\<close>

record external =
  capacitance_matrix :: "real list list"
  eigenfrequency_ghz :: real
  default_setup :: eigenmode_setup

text \<open>What a run of the notebook does that can be observed, in order.\<close>

datatype event =
    Print real
  | Display_matrix "real list list"
  | Display_setup eigenmode_setup
  | Gui string
  | Sim_run renderer "string list" "(string \<times> string) list" "string list option"

datatype failure = Arith fault | NameError string

record kernel =
  globals :: "string \<rightharpoonup> real"
  design :: "design_planar option"
  q3d_result :: "real list list option"
  eig_setup :: "eigenmode_setup option"
  hfss_result :: "real option"
  trace :: "event list"

definition fresh_kernel :: kernel where
  "fresh_kernel = \<lparr>globals = Map.empty, design = None, q3d_result = None, eig_setup = None,
     hfss_result = None, trace = []\<rparr>"

definition arith :: "fault + 'a \<Rightarrow> ('a \<Rightarrow> failure + 'b) \<Rightarrow> failure + 'b" where
  "arith r k = (case r of Inl err \<Rightarrow> Inl (Arith err) | Inr v \<Rightarrow> k v)"

definition next_cell :: "failure + kernel \<Rightarrow> (kernel \<Rightarrow> failure + kernel) \<Rightarrow> failure + kernel" where
  "next_cell r c = (case r of Inl err \<Rightarrow> Inl err | Inr s \<Rightarrow> c s)"

subsection \<open>The code cells\<close>

text \<open>
  Cell \<^verbatim>\<open>b3a8e268\<close>: the constants, the two closed forms, \<^verbatim>\<open>print(C/1e-15)\<close> and
  \<^verbatim>\<open>print(L/1e-9)\<close>.
\<close>

definition cell_derivation :: "kernel \<Rightarrow> failure + kernel" where
  "cell_derivation s =
     arith (derive_C e_charge h_planck alpha_target) (\<lambda>C.
     arith (derive_L C f_target) (\<lambda>L.
     arith (py_truediv C (1 / 10 ^ 15)) (\<lambda>p1.
     arith (py_truediv L (1 / 10 ^ 9)) (\<lambda>p2.
     Inr (s\<lparr>globals := (globals s)(''e'' \<mapsto> e_charge, ''h'' \<mapsto> h_planck,
                 ''alpha'' \<mapsto> alpha_target, ''f'' \<mapsto> f_target, ''C'' \<mapsto> C, ''L'' \<mapsto> L),
             trace := trace s @ [Print p1, Print p2]\<rparr>)))))"

text \<open>Cell \<^verbatim>\<open>76553498\<close>: the autoreload magics and the imports.\<close>

definition cell_imports :: "kernel \<Rightarrow> failure + kernel" where
  "cell_imports s = Inr s"

text \<open>Cell \<^verbatim>\<open>8b0ea09c\<close>: \<^verbatim>\<open>design = designs.DesignPlanar()\<close>, \<^verbatim>\<open>gui = MetalGUI(design)\<close>.\<close>

definition cell_design :: "kernel \<Rightarrow> failure + kernel" where
  "cell_design s =
     Inr (s\<lparr>design := Some \<lparr>overwrite_enabled = False, components = []\<rparr>,
            trace := trace s @ [Gui ''MetalGUI'']\<rparr>)"

text \<open>
  A component registers itself in the design under its name. A name already taken is
  replaced when \<^verbatim>\<open>overwrite_enabled\<close> is set and refused otherwise.
\<close>

definition add_component :: "component \<Rightarrow> design_planar \<Rightarrow> design_planar" where
  "add_component c d =
     (if comp_name c \<in> set (map comp_name (components d))
      then (if overwrite_enabled d
            then d\<lparr>components := filter (\<lambda>x. comp_name x \<noteq> comp_name c) (components d) @ [c]\<rparr>
            else d)
      else d\<lparr>components := components d @ [c]\<rparr>)"

definition design_options :: "(string \<times> string) list" where
  "design_options =
     [(''cross_width'', ''20um''),
      (''cross_length'', ''145um''),
      (''cross_gap'', ''20um''),
      (''hfss_inductance'', ''13nH''),
      (''pos_x'', ''2mm'')]"

definition qubit_Q1 :: component where
  "qubit_Q1 = \<lparr>comp_class = ''TransmonCross'', comp_name = ''Q1'',
     comp_options = design_options\<rparr>"

text \<open>
  Cell \<^verbatim>\<open>d3bc4673\<close>: \<^verbatim>\<open>design.overwrite_enabled = True\<close>,
  \<^verbatim>\<open>q1 = TransmonCross(design, 'Q1', options=design_options)\<close>, \<^verbatim>\<open>gui.rebuild()\<close>,
  \<^verbatim>\<open>gui.autoscale()\<close>.
\<close>

definition cell_qubit :: "kernel \<Rightarrow> failure + kernel" where
  "cell_qubit s =
     (case design s of
        None \<Rightarrow> Inl (NameError ''design'')
      | Some d \<Rightarrow>
          Inr (s\<lparr>design := Some (add_component qubit_Q1 (d\<lparr>overwrite_enabled := True\<rparr>)),
                 trace := trace s @ [Gui ''rebuild'', Gui ''autoscale'']\<rparr>))"

text \<open>
  Cell \<^verbatim>\<open>6eb881e6\<close>: \<^verbatim>\<open>c1=LOManalysis(design, "q3d")\<close>,
  \<^verbatim>\<open>c1.sim.run(components=['Q1'], open_terminations=[])\<close>, and the display of
  \<^verbatim>\<open>c1.sim.capacitance_matrix\<close>.
\<close>

definition cell_q3d :: "external \<Rightarrow> kernel \<Rightarrow> failure + kernel" where
  "cell_q3d ext s =
     (case design s of
        None \<Rightarrow> Inl (NameError ''design'')
      | Some d \<Rightarrow>
          Inr (s\<lparr>q3d_result := Some (capacitance_matrix ext),
                 trace := trace s @ [Sim_run Q3D [''Q1''] [] None,
                                     Display_matrix (capacitance_matrix ext)]\<rparr>))"

text \<open>
  Cell \<^verbatim>\<open>946575b4\<close>: \<^verbatim>\<open>eig_1qb = EPRanalysis(design, "hfss")\<close>, the five assignments to
  \<^verbatim>\<open>eig_1qb.sim.setup\<close>, and its display.
\<close>

definition assign_setup :: "eigenmode_setup \<Rightarrow> eigenmode_setup" where
  "assign_setup st = st\<lparr>max_passes := 12, max_delta_f := 1 / 10, min_freq_ghz := 1,
     n_modes := 1, setup_vars := [(''Lj'', ''13 nH''), (''Cj'', ''0 fF'')]\<rparr>"

definition cell_setup :: "external \<Rightarrow> kernel \<Rightarrow> failure + kernel" where
  "cell_setup ext s =
     (case design s of
        None \<Rightarrow> Inl (NameError ''design'')
      | Some d \<Rightarrow>
          (let st = assign_setup (default_setup ext)
           in Inr (s\<lparr>eig_setup := Some st, trace := trace s @ [Display_setup st]\<rparr>)))"

text \<open>
  Cell \<^verbatim>\<open>352705d2\<close>:
  \<^verbatim>\<open>eig_1qb.sim.run(components=['Q1'], open_terminations=[],port_list=[])\<close>.
\<close>

definition cell_eigenmode :: "external \<Rightarrow> kernel \<Rightarrow> failure + kernel" where
  "cell_eigenmode ext s =
     (case eig_setup s of
        None \<Rightarrow> Inl (NameError ''eig_1qb'')
      | Some st \<Rightarrow>
          Inr (s\<lparr>hfss_result := Some (eigenfrequency_ghz ext),
                 trace := trace s @ [Sim_run HFSS [''Q1''] [] (Some [])]\<rparr>))"

text \<open>
  Cell \<^verbatim>\<open>b9584025\<close>: \<^verbatim>\<open>f=1/np.sqrt(13e-9*78e-15)/2/np.pi\<close> and \<^verbatim>\<open>print(f/1e9)\<close>.
\<close>

definition check_Lj :: real where
  "check_Lj = 13 / 10 ^ 9"

definition check_Cq :: real where
  "check_Cq = 78 / 10 ^ 15"

definition cell_check :: "kernel \<Rightarrow> failure + kernel" where
  "cell_check s =
     arith (check_f check_Lj check_Cq) (\<lambda>f.
     arith (np_truediv f (10 ^ 9)) (\<lambda>p.
     Inr (s\<lparr>globals := (globals s)(''f'' \<mapsto> f), trace := trace s @ [Print p]\<rparr>)))"

text \<open>The cells after the derivation, and the whole notebook, top to bottom.\<close>

definition later_cells :: "external \<Rightarrow> kernel \<Rightarrow> failure + kernel" where
  "later_cells ext s =
     next_cell (next_cell (next_cell (next_cell (next_cell (next_cell
       (cell_imports s) cell_design) cell_qubit) (cell_q3d ext)) (cell_setup ext))
       (cell_eigenmode ext)) cell_check"

definition run_all :: "external \<Rightarrow> kernel \<Rightarrow> failure + kernel" where
  "run_all ext s = next_cell (cell_derivation s) (later_cells ext)"

subsection \<open>Reading a run\<close>

definition trace_of :: "failure + kernel \<Rightarrow> event list" where
  "trace_of r = (case r of Inl err \<Rightarrow> [] | Inr s \<Rightarrow> trace s)"

fun is_sim_run :: "event \<Rightarrow> bool" where
  "is_sim_run (Sim_run r cs ts ps) = True"
| "is_sim_run ev = False"

fun printed :: "event list \<Rightarrow> real list" where
  "printed [] = []"
| "printed (Print v # evs) = v # printed evs"
| "printed (ev # evs) = printed evs"

text \<open>
  The answers that the notebook records: the capacitance matrix of the stored output (in fF),
  the simulated frequency quoted in the prose (in GHz), and the setup as the stored output
  displays it. All five fields of the setup are assigned by the notebook, so the values they
  held before do not matter.
\<close>

definition recorded :: external where
  "recorded = \<lparr>capacitance_matrix = [[77.96968, - 76.77556], [- 76.77556, 122.01138]],
     eigenfrequency_ghz = 4.86,
     default_setup = \<lparr>max_passes = 12, max_delta_f = 1 / 10, min_freq_ghz = 1, n_modes = 1,
       setup_vars = [(''Lj'', ''13 nH''), (''Cj'', ''0 fF'')]\<rparr>\<rparr>"

subsection \<open>Reading the final state\<close>

definition global_of :: "failure + kernel \<Rightarrow> string \<Rightarrow> real option" where
  "global_of r x = (case r of Inl err \<Rightarrow> None | Inr k \<Rightarrow> globals k x)"

definition component_option :: "failure + kernel \<Rightarrow> string \<Rightarrow> string \<Rightarrow> string option" where
  "component_option r name key =
     (case r of
        Inl err \<Rightarrow> None
      | Inr k \<Rightarrow>
          (case design k of
             None \<Rightarrow> None
           | Some d \<Rightarrow>
               (case find (\<lambda>c. comp_name c = name) (components d) of
                  None \<Rightarrow> None
                | Some c \<Rightarrow> map_of (comp_options c) key)))"

definition setup_var :: "failure + kernel \<Rightarrow> string \<Rightarrow> string option" where
  "setup_var r key =
     (case r of
        Inl err \<Rightarrow> None
      | Inr k \<Rightarrow> (case eig_setup k of None \<Rightarrow> None | Some st \<Rightarrow> map_of (setup_vars st) key))"

subsection \<open>The same expressions in binary64\<close>

text \<open>
  The kernel evaluates the closed forms on IEEE 754 binary64 numbers. A finite number is a
  mantissa and an exponent, \<open>Finite m e\<close> standing for \<open>m \<times> 2\<^sup>e\<close>; the sign of zero is not kept
  (with positive operands no negative zero arises). Every operation returns the binary64
  number nearest to the exact result, ties to even, with gradual underflow below \<open>2\<^sup>-\<^sup>1\<^sup>0\<^sup>2\<^sup>2\<close>
  and overflow to infinity from \<open>2\<^sup>1\<^sup>0\<^sup>2\<^sup>4\<close> on.
\<close>

datatype double = Finite int int | PosInf | NegInf | NaN

fun value_of :: "double \<Rightarrow> real option" where
  "value_of (Finite m e) =
     Some (if 0 \<le> e then of_int m * 2 ^ nat e else of_int m / 2 ^ nat (- e))"
| "value_of x = None"

fun bit_length :: "nat \<Rightarrow> nat" where
  "bit_length n = (if n = 0 then 0 else bit_length (n div 2) + 1)"

text \<open>\<open>\<lfloor>log\<^sub>2 (n / d)\<rfloor>\<close> for positive \<open>n\<close> and \<open>d\<close>.\<close>

definition ilog2 :: "nat \<Rightarrow> nat \<Rightarrow> int" where
  "ilog2 n d =
     (let b = int (bit_length n) - int (bit_length d)
      in if d * 2 ^ nat b \<le> n * 2 ^ nat (- b) then b else b - 1)"

text \<open>The integer nearest to \<open>N / D\<close>, the even one of two equally near.\<close>

definition round_half_even :: "nat \<Rightarrow> nat \<Rightarrow> nat" where
  "round_half_even N D =
     (let q = N div D; r = N mod D
      in if 2 * r < D then q else if D < 2 * r then q + 1
         else if even q then q else q + 1)"

text \<open>
  Rounding of the exact value \<open>(n / d) \<times> 2\<^sup>s\<close>: the unit in the last place is \<open>2\<^sup>q\<close> with
  \<open>q = max (\<lfloor>log\<^sub>2 value\<rfloor> - 52) (- 1074)\<close>; \<open>None\<close> is overflow. The result has a mantissa
  below \<open>2\<^sup>5\<^sup>3\<close>, so equal numbers have equal representations.
\<close>

definition round_magnitude :: "nat \<Rightarrow> nat \<Rightarrow> int \<Rightarrow> (nat \<times> int) option" where
  "round_magnitude n d s =
     (if n = 0 then Some (0, 0)
      else
        let q = max (ilog2 n d + s - 52) (- 1074);
            M = round_half_even (n * 2 ^ nat (s - q)) (d * 2 ^ nat (q - s))
        in if M = 0 then Some (0, 0)
           else if M = 2 ^ 53 then (if 971 < q + 1 then None else Some (2 ^ 52, q + 1))
           else if 971 < q then None
           else Some (M, q))"

definition round_double :: "int \<Rightarrow> nat \<Rightarrow> int \<Rightarrow> double" where
  "round_double n d s =
     (case round_magnitude (nat \<bar>n\<bar>) d s of
        None \<Rightarrow> (if n < 0 then NegInf else PosInf)
      | Some (M, q) \<Rightarrow> Finite (if n < 0 then - int M else int M) q)"

text \<open>A decimal literal \<^verbatim>\<open>mEx\<close> of the source is the binary64 number nearest to \<open>m \<times> 10\<^sup>x\<close>.\<close>

definition literal :: "int \<Rightarrow> int \<Rightarrow> double" where
  "literal m x = (if 0 \<le> x then round_double (m * 10 ^ nat x) 1 0
                  else round_double m (10 ^ nat (- x)) 0)"

fun is_zero :: "double \<Rightarrow> bool" where
  "is_zero (Finite m e) = (m = 0)"
| "is_zero x = False"

fun negative :: "double \<Rightarrow> bool" where
  "negative (Finite m e) = (m < 0)"
| "negative NegInf = True"
| "negative x = False"

definition infinity :: "bool \<Rightarrow> double" where
  "infinity neg = (if neg then NegInf else PosInf)"

text \<open>Multiplication and division of IEEE 754: they never raise.\<close>

fun fmul :: "double \<Rightarrow> double \<Rightarrow> double" where
  "fmul NaN y = NaN"
| "fmul x NaN = NaN"
| "fmul (Finite m1 e1) (Finite m2 e2) = round_double (m1 * m2) 1 (e1 + e2)"
| "fmul x y = (if is_zero x \<or> is_zero y then NaN else infinity (negative x \<noteq> negative y))"

fun fdiv :: "double \<Rightarrow> double \<Rightarrow> double" where
  "fdiv NaN y = NaN"
| "fdiv x NaN = NaN"
| "fdiv (Finite m1 e1) (Finite m2 e2) =
     (if m2 = 0 then (if m1 = 0 then NaN else infinity (m1 < 0))
      else round_double (if m2 < 0 then - m1 else m1) (nat \<bar>m2\<bar>) (e1 - e2))"
| "fdiv (Finite m1 e1) y = Finite 0 0"
| "fdiv x (Finite m2 e2) = infinity (negative x \<noteq> (m2 < 0))"
| "fdiv x y = NaN"

text \<open>\<open>\<lfloor>\<surd>x\<rfloor>\<close> on the naturals.\<close>

function isqrt :: "nat \<Rightarrow> nat" where
  "isqrt x = (if x < 2 then x
              else let r = 2 * isqrt (x div 4)
                   in if (r + 1) * (r + 1) \<le> x then r + 1 else r)"
  by pat_completeness auto
termination
  by (relation "measure id") auto

text \<open>
  The square root: the exponent is made even, the mantissa is scaled by \<open>4\<^sup>6\<^sup>4\<close>, and the
  integer root with a sticky bit for the remainder is rounded as above.
\<close>

fun fsqrt :: "double \<Rightarrow> double" where
  "fsqrt (Finite m e) =
     (if m < 0 then NaN
      else if m = 0 then Finite 0 0
      else
        let m2 = (if even e then m else 2 * m);
            e2 = (if even e then e else e - 1);
            X = nat m2 * 4 ^ 64;
            r = isqrt X;
            sticky = (if r * r = X then 0 else 1)
        in round_double (int (2 * r + sticky)) 1 (e2 div 2 - 65))"
| "fsqrt PosInf = PosInf"
| "fsqrt x = NaN"

text \<open>
  Python's \<^verbatim>\<open>/\<close> raises \<^verbatim>\<open>ZeroDivisionError\<close> for a zero divisor and otherwise divides as
  IEEE 754 does. Python's \<^verbatim>\<open>x**2\<close> hands the operands to the C library's \<^verbatim>\<open>pow\<close>, raises
  \<^verbatim>\<open>OverflowError\<close> when a finite \<open>x\<close> has an infinite square, and lets an underflow to
  zero pass. The library does not promise the correctly rounded square for every operand; the
  model takes the rounded square, which is what the library returns on the operands evaluated
  below: with it the evaluation gives the three numbers of the stored outputs.
\<close>

definition py_truediv_double :: "double \<Rightarrow> double \<Rightarrow> fault + double" where
  "py_truediv_double a b = (if is_zero b then Inl ZeroDivisionError else Inr (fdiv a b))"

fun py_square_double :: "double \<Rightarrow> fault + double" where
  "py_square_double (Finite m e) =
     (case round_double (m * m) 1 (2 * e) of
        PosInf \<Rightarrow> Inl OverflowError
      | v \<Rightarrow> Inr v)"
| "py_square_double NaN = Inr NaN"
| "py_square_double x = Inr PosInf"

text \<open>\<^verbatim>\<open>np.pi\<close> is the literal \<^verbatim>\<open>3.141592653589793\<close>.\<close>

definition np_pi :: double where
  "np_pi = literal 3141592653589793 (- 15)"

text \<open>\<^verbatim>\<open>C=e**2/2/h/alpha\<close>\<close>

definition derive_C_double :: "double \<Rightarrow> double \<Rightarrow> double \<Rightarrow> fault + double" where
  "derive_C_double e h alpha =
     and_then (py_square_double e) (\<lambda>a.
     and_then (py_truediv_double a (literal 2 0)) (\<lambda>b.
     and_then (py_truediv_double b h) (\<lambda>c.
     py_truediv_double c alpha)))"

text \<open>\<^verbatim>\<open>L=1/C/(2*np.pi*f)**2\<close>\<close>

definition derive_L_double :: "double \<Rightarrow> double \<Rightarrow> fault + double" where
  "derive_L_double C f =
     and_then (py_truediv_double (literal 1 0) C) (\<lambda>a.
     and_then (py_square_double (fmul (fmul (literal 2 0) np_pi) f)) (\<lambda>b.
     py_truediv_double a b))"

text \<open>
  \<^verbatim>\<open>1/np.sqrt(L*C)/2/np.pi\<close>: the product is a Python float product, the root and the three
  divisions are numpy's, which return infinities and NaN instead of raising.
\<close>

definition check_f_double :: "double \<Rightarrow> double \<Rightarrow> double" where
  "check_f_double L C =
     fdiv (fdiv (fdiv (literal 1 0) (fsqrt (fmul L C))) (literal 2 0)) np_pi"

definition derive_double ::
  "double \<Rightarrow> double \<Rightarrow> double \<Rightarrow> double \<Rightarrow> fault + (double \<times> double)" where
  "derive_double e h alpha f =
     and_then (derive_C_double e h alpha) (\<lambda>C.
     and_then (derive_L_double C f) (\<lambda>L. Inr (C, L)))"

text \<open>The derivation followed by the frequency formula on the derived values.\<close>

definition roundtrip_double :: "double \<Rightarrow> double \<Rightarrow> double \<Rightarrow> double \<Rightarrow> fault + double" where
  "roundtrip_double e h alpha f =
     and_then (derive_double e h alpha f) (\<lambda>(C, L). Inr (check_f_double L C))"

text \<open>\<^verbatim>\<open>1/(2*np.pi*f)**2\<close>, the right-hand side of the product relation.\<close>

definition inverse_omega2_double :: "double \<Rightarrow> fault + double" where
  "inverse_omega2_double f =
     and_then (py_square_double (fmul (fmul (literal 2 0) np_pi) f)) (\<lambda>b.
     py_truediv_double (literal 1 0) b)"

text \<open>The literals \<^verbatim>\<open>1.60217657e-19\<close> and \<^verbatim>\<open>6.62606957e-34\<close>.\<close>

definition e_double :: double where
  "e_double = literal 160217657 (- 27)"

definition h_double :: double where
  "h_double = literal 662606957 (- 42)"

subsection \<open>The formulas as the notebook's prose states them\<close>

text \<open>
  The markdown cell before the derivation gives \<open>C\<^sub>q = e\<^sup>2 / (2 h \<alpha>)\<close>,
  \<open>L\<^sub>j = 1 / ((2 \<pi> f)\<^sup>2 C\<^sub>q)\<close> and \<open>f = 1 / (2 \<pi> \<surd>(L\<^sub>j C\<^sub>q))\<close>. These are the stated
  formulas, to be compared with what the code computes.
\<close>

definition spec_C :: "real \<Rightarrow> real \<Rightarrow> real \<Rightarrow> real" where
  "spec_C e h alpha = e ^ 2 / (2 * h * alpha)"

definition spec_L :: "real \<Rightarrow> real \<Rightarrow> real" where
  "spec_L f C = 1 / ((2 * pi * f) ^ 2 * C)"

definition spec_f :: "real \<Rightarrow> real \<Rightarrow> real" where
  "spec_f L C = 1 / (2 * pi * sqrt (L * C))"

text \<open>Partial sums of the arctangent series, for rational bounds on \<open>\<pi>\<close>.\<close>

definition arctan_partial :: "nat \<Rightarrow> real \<Rightarrow> real" where
  "arctan_partial n x = (\<Sum>k<n. (- 1) ^ k * (1 / real (k * 2 + 1) * x ^ (k * 2 + 1)))"

section \<open>Bounds on \<open>\<pi>\<close>\<close>

lemma arctan_between:
  assumes "0 < x" "x \<le> 1"
  shows "arctan_partial (2 * n) x \<le> arctan x \<and> arctan x \<le> arctan_partial (2 * n + 1) x"
proof -
  let ?a = "\<lambda>k. 1 / real (k * 2 + 1) * x ^ (k * 2 + 1)"
  have ax: "\<bar>x\<bar> \<le> 1" using assms by simp
  have pos: "0 < ?a 0" using assms by simp
  have "(\<Sum>i. (- 1) ^ i * ?a i) \<in> {\<Sum>i<2 * n. (- 1) ^ i * ?a i .. \<Sum>i<2 * n + 1. (- 1) ^ i * ?a i}"
    using summable_Leibniz(2)[OF zeroseq_arctan_series[OF ax] monoseq_arctan_series[OF ax]] pos
    by blast
  then show ?thesis
    by (simp add: arctan_series[OF ax] arctan_partial_def)
qed

lemma pi_lower: "3.14159265358979323 < pi"
proof -
  have a: "arctan_partial (2 * 7) (1 / 5) \<le> arctan (1 / 5)"
    using arctan_between[of "1 / 5" 7] by simp
  have b: "arctan (1 / 239) \<le> arctan_partial (2 * 2 + 1) (1 / 239)"
    using arctan_between[of "1 / 239" 2] by simp
  have "pi = 16 * arctan (1 / 5) - 4 * arctan (1 / 239)"
    using machin by simp
  then have "16 * arctan_partial (2 * 7) (1 / 5) - 4 * arctan_partial (2 * 2 + 1) (1 / 239) \<le> pi"
    using a b by linarith
  moreover have "3.14159265358979323
      < 16 * arctan_partial (2 * 7) (1 / 5) - 4 * arctan_partial (2 * 2 + 1) (1 / 239)"
    by (simp add: arctan_partial_def eval_nat_numeral)
  ultimately show ?thesis by linarith
qed

lemma pi_upper: "pi < 3.14159265358979324"
proof -
  have a: "arctan (1 / 5) \<le> arctan_partial (2 * 6 + 1) (1 / 5)"
    using arctan_between[of "1 / 5" 6] by simp
  have b: "arctan_partial (2 * 2) (1 / 239) \<le> arctan (1 / 239)"
    using arctan_between[of "1 / 239" 2] by simp
  have "pi = 16 * arctan (1 / 5) - 4 * arctan (1 / 239)"
    using machin by simp
  then have "pi \<le> 16 * arctan_partial (2 * 6 + 1) (1 / 5) - 4 * arctan_partial (2 * 2) (1 / 239)"
    using a b by linarith
  moreover have "16 * arctan_partial (2 * 6 + 1) (1 / 5) - 4 * arctan_partial (2 * 2) (1 / 239)
      < 3.14159265358979324"
    by (simp add: arctan_partial_def eval_nat_numeral)
  ultimately show ?thesis by linarith
qed

section \<open>The code computes the stated formulas\<close>

lemma derive_C_spec:
  "h \<noteq> 0 \<Longrightarrow> alpha \<noteq> 0 \<Longrightarrow> derive_C e h alpha = Inr (spec_C e h alpha)"
  by (simp add: derive_C_def and_then_def py_truediv_def spec_C_def)

lemma derive_L_spec:
  "C \<noteq> 0 \<Longrightarrow> f \<noteq> 0 \<Longrightarrow> derive_L C f = Inr (spec_L f C)"
  by (simp add: derive_L_def and_then_def py_truediv_def spec_L_def)

lemma check_f_spec:
  "0 < L * C \<Longrightarrow> check_f L C = Inr (spec_f L C)"
  by (auto simp add: check_f_def and_then_def np_truediv_def np_sqrt_def spec_f_def)

lemma spec_C_pos: "e \<noteq> 0 \<Longrightarrow> 0 < h \<Longrightarrow> 0 < alpha \<Longrightarrow> 0 < spec_C e h alpha"
  by (simp add: spec_C_def)

lemma spec_L_pos: "0 < C \<Longrightarrow> 0 < f \<Longrightarrow> 0 < spec_L f C"
  by (simp add: spec_L_def)

lemma constants_pos: "e_charge \<noteq> 0" "0 < h_planck" "0 < alpha_target" "0 < f_target"
  by (simp_all add: e_charge_def h_planck_def alpha_target_def f_target_def)

lemma derive_spec:
  assumes "e \<noteq> 0" "0 < h" "0 < alpha" "0 < f"
  shows "derive e h alpha f = Inr (spec_C e h alpha, spec_L f (spec_C e h alpha))"
proof -
  have c: "derive_C e h alpha = Inr (spec_C e h alpha)"
    using assms by (simp add: derive_C_spec)
  have "spec_C e h alpha \<noteq> 0"
    using spec_C_pos[of e h alpha] assms by simp
  then have l: "derive_L (spec_C e h alpha) f = Inr (spec_L f (spec_C e h alpha))"
    using assms by (simp add: derive_L_spec)
  show ?thesis
    by (simp add: derive_def and_then_def c l)
qed

section \<open>What each cell and the whole run leave behind\<close>

lemma cell_derivation_result:
  "cell_derivation s =
     Inr (s\<lparr>globals := (globals s)(''e'' \<mapsto> e_charge, ''h'' \<mapsto> h_planck,
                 ''alpha'' \<mapsto> alpha_target, ''f'' \<mapsto> f_target,
                 ''C'' \<mapsto> spec_C e_charge h_planck alpha_target,
                 ''L'' \<mapsto> spec_L f_target (spec_C e_charge h_planck alpha_target)),
             trace := trace s @ [Print (spec_C e_charge h_planck alpha_target * 10 ^ 15),
               Print (spec_L f_target (spec_C e_charge h_planck alpha_target) * 10 ^ 9)]\<rparr>)"
proof -
  have c: "derive_C e_charge h_planck alpha_target = Inr (spec_C e_charge h_planck alpha_target)"
    using constants_pos by (simp add: derive_C_spec)
  have "spec_C e_charge h_planck alpha_target \<noteq> 0"
    using spec_C_pos[of e_charge h_planck alpha_target] constants_pos by simp
  then have l: "derive_L (spec_C e_charge h_planck alpha_target) f_target
      = Inr (spec_L f_target (spec_C e_charge h_planck alpha_target))"
    using constants_pos by (simp add: derive_L_spec)
  show ?thesis
    by (simp add: cell_derivation_def arith_def c l py_truediv_def)
qed

lemma check_literals_pos: "0 < check_Lj * check_Cq"
  by (simp add: check_Lj_def check_Cq_def)

lemma cell_check_result:
  "cell_check s =
     Inr (s\<lparr>globals := (globals s)(''f'' \<mapsto> spec_f check_Lj check_Cq),
            trace := trace s @ [Print (spec_f check_Lj check_Cq / 10 ^ 9)]\<rparr>)"
  by (simp add: cell_check_def arith_def check_f_spec[OF check_literals_pos] np_truediv_def)

lemma later_cells_result:
  "later_cells ext s =
     Inr (s\<lparr>globals := (globals s)(''f'' \<mapsto> spec_f check_Lj check_Cq),
            design := Some \<lparr>overwrite_enabled = True, components = [qubit_Q1]\<rparr>,
            q3d_result := Some (capacitance_matrix ext),
            eig_setup := Some (assign_setup (default_setup ext)),
            hfss_result := Some (eigenfrequency_ghz ext),
            trace := trace s @ [Gui ''MetalGUI'', Gui ''rebuild'', Gui ''autoscale'',
              Sim_run Q3D [''Q1''] [] None, Display_matrix (capacitance_matrix ext),
              Display_setup (assign_setup (default_setup ext)),
              Sim_run HFSS [''Q1''] [] (Some []),
              Print (spec_f check_Lj check_Cq / 10 ^ 9)]\<rparr>)"
  by (simp add: later_cells_def next_cell_def cell_imports_def cell_design_def cell_qubit_def
      cell_q3d_def cell_setup_def cell_eigenmode_def cell_check_result add_component_def Let_def)

lemma run_all_result:
  "run_all ext s =
     Inr (s\<lparr>globals := (globals s)(''e'' \<mapsto> e_charge, ''h'' \<mapsto> h_planck,
                 ''alpha'' \<mapsto> alpha_target,
                 ''C'' \<mapsto> spec_C e_charge h_planck alpha_target,
                 ''L'' \<mapsto> spec_L f_target (spec_C e_charge h_planck alpha_target),
                 ''f'' \<mapsto> spec_f check_Lj check_Cq),
            design := Some \<lparr>overwrite_enabled = True, components = [qubit_Q1]\<rparr>,
            q3d_result := Some (capacitance_matrix ext),
            eig_setup := Some (assign_setup (default_setup ext)),
            hfss_result := Some (eigenfrequency_ghz ext),
            trace := trace s @
              [Print (spec_C e_charge h_planck alpha_target * 10 ^ 15),
               Print (spec_L f_target (spec_C e_charge h_planck alpha_target) * 10 ^ 9),
               Gui ''MetalGUI'', Gui ''rebuild'', Gui ''autoscale'',
               Sim_run Q3D [''Q1''] [] None, Display_matrix (capacitance_matrix ext),
               Display_setup (assign_setup (default_setup ext)),
               Sim_run HFSS [''Q1''] [] (Some []),
               Print (spec_f check_Lj check_Cq / 10 ^ 9)]\<rparr>)"
  by (simp add: run_all_def next_cell_def cell_derivation_result later_cells_result fun_upd_twist)

section \<open>Algebra of the stated formulas\<close>

lemma spec_product:
  assumes "C \<noteq> 0" "f \<noteq> 0"
  shows "spec_L f C * C = 1 / (2 * pi * f) ^ 2"
  using assms by (simp add: spec_L_def)

lemma spec_roundtrip:
  assumes "0 < C" "0 < f"
  shows "spec_f (spec_L f C) C = f"
proof -
  have p: "spec_L f C * C = 1 / (2 * pi * f) ^ 2"
    using assms by (simp add: spec_product)
  have "sqrt (1 / (2 * pi * f) ^ 2) = 1 / (2 * pi * f)"
    using assms by (simp add: real_sqrt_divide)
  then show ?thesis
    using assms by (simp add: spec_f_def p)
qed

lemma spec_C_antimono:
  assumes "e \<noteq> 0" "0 < h" "0 < a1" "a1 < a2"
  shows "spec_C e h a2 < spec_C e h a1"
proof -
  have "2 * h * a1 < 2 * h * a2" using assms by simp
  moreover have "0 < e ^ 2" using assms by simp
  moreover have "0 < (2 * h * a2) * (2 * h * a1)" using assms by simp
  ultimately show ?thesis
    unfolding spec_C_def by (rule divide_strict_left_mono)
qed

lemma spec_L_antimono:
  assumes "0 < C2" "C2 < C1" "0 < f"
  shows "spec_L f C1 < spec_L f C2"
proof -
  have m: "0 < (2 * pi * f) ^ 2" using assms by simp
  have c1: "0 < C1" using assms by simp
  have "(2 * pi * f) ^ 2 * C2 < (2 * pi * f) ^ 2 * C1"
    using m assms by simp
  moreover have "0 < ((2 * pi * f) ^ 2 * C1) * ((2 * pi * f) ^ 2 * C2)"
    using m c1 assms by simp
  ultimately show ?thesis
    unfolding spec_L_def by (rule divide_strict_left_mono[OF _ zero_less_one])
qed

section \<open>Numerical values\<close>

lemma pi_square_bounds:
  "3.14159265358979323 ^ 2 < pi ^ 2" "pi ^ 2 < 3.14159265358979324 ^ 2"
proof -
  show "3.14159265358979323 ^ 2 < pi ^ 2"
    by (rule power_strict_mono[OF pi_lower]) simp_all
  show "pi ^ 2 < 3.14159265358979324 ^ 2"
    by (rule power_strict_mono[OF pi_upper]) simp_all
qed

lemma over_pi_square_bounds:
  assumes "0 < k"
  shows "k / 3.14159265358979324 ^ 2 < k / pi ^ 2" "k / pi ^ 2 < k / 3.14159265358979323 ^ 2"
proof -
  have p: "(0::real) < pi ^ 2" by simp
  show "k / 3.14159265358979324 ^ 2 < k / pi ^ 2"
    by (rule divide_strict_left_mono[OF pi_square_bounds(2) assms]) simp
  show "k / pi ^ 2 < k / 3.14159265358979323 ^ 2"
    by (rule divide_strict_left_mono[OF pi_square_bounds(1) assms]) simp
qed

lemma C_femtofarad_value:
  "spec_C e_charge h_planck alpha_target * 10 ^ 15 = 25669697614569649 / 331303478500000"
  by (simp add: spec_C_def e_charge_def h_planck_def alpha_target_def power2_eq_square)

lemma L_nanohenry_value:
  "spec_L f_target (spec_C e_charge h_planck alpha_target) * 10 ^ 9
     = (3313034785000000000 / 25669697614569649) / pi ^ 2"
  by (simp add: spec_L_def spec_C_def e_charge_def h_planck_def alpha_target_def f_target_def
      power2_eq_square)

lemma L_nanohenry_bounds:
  "13.076920924612368 < spec_L f_target (spec_C e_charge h_planck alpha_target) * 10 ^ 9"
  "spec_L f_target (spec_C e_charge h_planck alpha_target) * 10 ^ 9 < 13.076920924612369"
proof -
  let ?k = "3313034785000000000 / 25669697614569649 :: real"
  have k: "0 < ?k" by simp
  have "13.076920924612368 < ?k / 3.14159265358979324 ^ 2" by (simp add: power2_eq_square)
  also have "\<dots> < ?k / pi ^ 2" by (rule over_pi_square_bounds(1)[OF k])
  finally show "13.076920924612368 < spec_L f_target (spec_C e_charge h_planck alpha_target) * 10 ^ 9"
    by (simp only: L_nanohenry_value)
  have "?k / pi ^ 2 < ?k / 3.14159265358979323 ^ 2" by (rule over_pi_square_bounds(2)[OF k])
  also have "\<dots> < 13.076920924612369" by (simp add: power2_eq_square)
  finally show "spec_L f_target (spec_C e_charge h_planck alpha_target) * 10 ^ 9 < 13.076920924612369"
    by (simp only: L_nanohenry_value)
qed

lemma L_rounds_to_13:
  "round (spec_L f_target (spec_C e_charge h_planck alpha_target) / (1 / 10 ^ 9)) = 13"
proof -
  let ?x = "spec_L f_target (spec_C e_charge h_planck alpha_target) * 10 ^ 9"
  have "round ?x = 13"
    using L_nanohenry_bounds by (intro round_unique) simp_all
  then show ?thesis by simp
qed

lemma C_farad_near_78:
  "\<bar>check_Cq - spec_C e_charge h_planck alpha_target\<bar> < 1 / 10 ^ 15"
  "check_Cq \<noteq> spec_C e_charge h_planck alpha_target"
  by (simp_all add: check_Cq_def spec_C_def e_charge_def h_planck_def alpha_target_def
      power2_eq_square)

lemma L_henry_not_13:
  "check_Lj \<noteq> spec_L f_target (spec_C e_charge h_planck alpha_target)"
proof
  assume "check_Lj = spec_L f_target (spec_C e_charge h_planck alpha_target)"
  then have "spec_L f_target (spec_C e_charge h_planck alpha_target) * 10 ^ 9 = 13"
    by (simp add: check_Lj_def)
  then show False
    using L_nanohenry_bounds(1) by simp
qed

lemma spec_f_square:
  assumes "0 < L * C"
  shows "(spec_f L C / 10 ^ 9) ^ 2 = (1 / (4 * (L * C) * 10 ^ 18)) / pi ^ 2"
  using assms by (simp add: spec_f_def power_divide power_mult_distrib)

lemma f_gigahertz_square:
  "(spec_f check_Lj check_Cq / 10 ^ 9) ^ 2 = (125000 / 507) / pi ^ 2"
proof -
  have "1 / (4 * (check_Lj * check_Cq) * 10 ^ 18) = (125000 / 507 :: real)"
    by (simp add: check_Lj_def check_Cq_def)
  then show ?thesis
    by (simp only: spec_f_square[OF check_literals_pos])
qed

lemma f_gigahertz_pos: "0 < spec_f check_Lj check_Cq / 10 ^ 9"
  using check_literals_pos by (simp add: spec_f_def)

lemma f_gigahertz_bounds:
  "4.998056418164590 < spec_f check_Lj check_Cq / 10 ^ 9"
  "spec_f check_Lj check_Cq / 10 ^ 9 < 4.998056418164591"
proof -
  let ?k = "125000 / 507 :: real"
  have k: "0 < ?k" by simp
  have p: "0 \<le> spec_f check_Lj check_Cq / 10 ^ 9"
    using f_gigahertz_pos by (rule less_imp_le)
  have "4.998056418164590 ^ 2 < ?k / 3.14159265358979324 ^ 2"
    by (simp add: power2_eq_square)
  also have "\<dots> < ?k / pi ^ 2" by (rule over_pi_square_bounds(1)[OF k])
  finally have "4.998056418164590 ^ 2 < (spec_f check_Lj check_Cq / 10 ^ 9) ^ 2"
    by (simp only: f_gigahertz_square)
  then show "4.998056418164590 < spec_f check_Lj check_Cq / 10 ^ 9"
    using p by (rule power2_less_imp_less)
  have "?k / pi ^ 2 < ?k / 3.14159265358979323 ^ 2" by (rule over_pi_square_bounds(2)[OF k])
  also have "\<dots> < 4.998056418164591 ^ 2"
    by (simp add: power2_eq_square)
  finally have "(spec_f check_Lj check_Cq / 10 ^ 9) ^ 2 < 4.998056418164591 ^ 2"
    by (simp only: f_gigahertz_square)
  then show "spec_f check_Lj check_Cq / 10 ^ 9 < 4.998056418164591"
    by (rule power2_less_imp_less) simp
qed

lemma derive_constants:
  "derive e_charge h_planck alpha_target f_target
     = Inr (spec_C e_charge h_planck alpha_target,
            spec_L f_target (spec_C e_charge h_planck alpha_target))"
  using constants_pos by (simp add: derive_spec)

text \<open>
  C6: in exact arithmetic the two values the derivation cell prints are within \<open>2 \<times> 10\<^sup>-\<^sup>1\<^sup>4\<close> of
  the displayed 77.4809178907237 and within \<open>4 \<times> 10\<^sup>-\<^sup>1\<^sup>5\<close> of the displayed
  13.076920924612372; in particular they are about 77.48 and about 13.08.
\<close>

theorem printed_values_close:
  "\<exists>p1 p2. trace_of (cell_derivation (s\<lparr>trace := []\<rparr>)) = [Print p1, Print p2]
      \<and> \<bar>p1 - 77.4809178907237\<bar> < 2 / 10 ^ 14
      \<and> \<bar>p2 - 13.076920924612372\<bar> < 4 / 10 ^ 15
      \<and> \<bar>p1 - 77.48\<bar> < 1 / 10 ^ 3
      \<and> \<bar>p2 - 13.08\<bar> < 4 / 10 ^ 3"
proof -
  let ?p1 = "spec_C e_charge h_planck alpha_target * 10 ^ 15"
  let ?p2 = "spec_L f_target (spec_C e_charge h_planck alpha_target) * 10 ^ 9"
  have t: "trace_of (cell_derivation (s\<lparr>trace := []\<rparr>)) = [Print ?p1, Print ?p2]"
    by (simp add: cell_derivation_result trace_of_def)
  have a: "\<bar>?p1 - 77.4809178907237\<bar> < 2 / 10 ^ 14" "\<bar>?p1 - 77.48\<bar> < 1 / 10 ^ 3"
    by (simp_all only: C_femtofarad_value) simp_all
  have b: "\<bar>?p2 - 13.076920924612372\<bar> < 4 / 10 ^ 15" "\<bar>?p2 - 13.08\<bar> < 4 / 10 ^ 3"
    using L_nanohenry_bounds by (simp_all add: abs_less_iff)
  show ?thesis
    using t a b by blast
qed

section \<open>What the run does\<close>

lemma quantity_13nH: "quantity ''13nH'' = Some (13 / 10 ^ 9)"
  by (simp add: quantity_def is_digit_def digits_value_def unit_scale_def Let_def)

lemma quantity_13_nH: "quantity ''13 nH'' = Some (13 / 10 ^ 9)"
  by (simp add: quantity_def is_digit_def digits_value_def unit_scale_def Let_def)

lemma printed_append: "printed (xs @ ys) = printed xs @ printed ys"
  by (induction xs rule: printed.induct) simp_all

text \<open>
  C3: whatever the simulator answers and whatever the kernel held before, a run of the notebook
  adds exactly two simulation runs to the trace: the Q3D run on \<^verbatim>\<open>['Q1']\<close> and then the HFSS
  eigenmode run on \<^verbatim>\<open>['Q1']\<close>.
\<close>

theorem two_backend_runs:
  "filter is_sim_run (trace_of (run_all ext s))
     = filter is_sim_run (trace s) @ [Sim_run Q3D [''Q1''] [] None, Sim_run HFSS [''Q1''] [] (Some [])]"
  by (simp add: run_all_result trace_of_def)

text \<open>
  C4: after a run the design holds exactly one component, the \<^verbatim>\<open>TransmonCross\<close> named
  \<^verbatim>\<open>Q1\<close> with the five options of the notebook.
\<close>

theorem one_component:
  "\<exists>s' d. run_all ext s = Inr s' \<and> design s' = Some d
     \<and> components d =
         [\<lparr>comp_class = ''TransmonCross'', comp_name = ''Q1'',
           comp_options = [(''cross_width'', ''20um''), (''cross_length'', ''145um''),
             (''cross_gap'', ''20um''), (''hfss_inductance'', ''13nH''), (''pos_x'', ''2mm'')]\<rparr>]"
  by (simp add: run_all_result qubit_Q1_def design_options_def)

text \<open>
  C8: the option \<^verbatim>\<open>hfss_inductance\<close> of the qubit, the variable \<^verbatim>\<open>Lj\<close> of the eigenmode
  setup and the inductance of the final frequency check all denote \<open>13 \<times> 10\<^sup>-\<^sup>9\<close> H, and this
  is the derived \<open>L\<close> rounded to the nearest nH.
\<close>

theorem inductance_consistent:
  "\<exists>s' d q st L fr. run_all ext s = Inr s'
     \<and> design s' = Some d \<and> components d = [q]
     \<and> map_option quantity (map_of (comp_options q) ''hfss_inductance'') = Some (Some (13 / 10 ^ 9))
     \<and> eig_setup s' = Some st
     \<and> map_option quantity (map_of (setup_vars st) ''Lj'') = Some (Some (13 / 10 ^ 9))
     \<and> check_Lj = 13 / 10 ^ 9
     \<and> check_f (13 / 10 ^ 9) check_Cq = Inr fr \<and> globals s' ''f'' = Some fr
     \<and> globals s' ''L'' = Some L \<and> round (L / (1 / 10 ^ 9)) = 13"
proof -
  let ?L = "spec_L f_target (spec_C e_charge h_planck alpha_target)"
  obtain s' where r: "run_all ext s = Inr s'"
    and d: "design s' = Some \<lparr>overwrite_enabled = True, components = [qubit_Q1]\<rparr>"
    and e: "eig_setup s' = Some (assign_setup (default_setup ext))"
    and gf: "globals s' ''f'' = Some (spec_f check_Lj check_Cq)"
    and gl: "globals s' ''L'' = Some ?L"
    by (simp add: run_all_result)
  have q: "map_option quantity (map_of (comp_options qubit_Q1) ''hfss_inductance'')
      = Some (Some (13 / 10 ^ 9))"
    by (simp add: qubit_Q1_def design_options_def quantity_13nH)
  have v: "map_option quantity (map_of (setup_vars (assign_setup (default_setup ext))) ''Lj'')
      = Some (Some (13 / 10 ^ 9))"
    by (simp add: assign_setup_def quantity_13_nH)
  have c: "check_Lj = 13 / 10 ^ 9"
    by (simp add: check_Lj_def)
  have f: "check_f (13 / 10 ^ 9) check_Cq = Inr (spec_f check_Lj check_Cq)"
    using check_f_spec[OF check_literals_pos] by (simp only: c)
  have "components \<lparr>overwrite_enabled = True, components = [qubit_Q1]\<rparr> = [qubit_Q1]"
    by simp
  then show ?thesis
    using r d e gf gl q v c f L_rounds_to_13 by blast
qed

text \<open>
  C7: the printed values and the computed \<open>C\<close>, \<open>L\<close> and \<open>f\<close> of a run are the same for any
  two answers of the simulator and any two prior states of the kernel: nothing outside the
  cells' own constants reaches them.
\<close>

theorem local_outputs_deterministic:
  "printed (trace_of (run_all ext1 (s1\<lparr>trace := t\<rparr>)))
     = printed (trace_of (run_all ext2 (s2\<lparr>trace := t\<rparr>)))
   \<and> (\<exists>k1 k2. run_all ext1 s1 = Inr k1 \<and> run_all ext2 s2 = Inr k2
        \<and> globals k1 ''C'' = globals k2 ''C'' \<and> globals k1 ''L'' = globals k2 ''L''
        \<and> globals k1 ''f'' = globals k2 ''f'')"
  by (simp add: run_all_result trace_of_def printed_append)

section \<open>Where the notebook differs from its description\<close>

text \<open>
  C1 (as stated, fails): the later steps do not use the derived values. In the run on the
  recorded answers, the inductance handed to the qubit and to the eigenmode setup is not the
  stored \<open>L\<close>; the frequency the last cell stores is not the one that the stored \<open>L\<close> and \<open>C\<close>
  give; and the later cells leave the same trace whatever \<open>C\<close> and \<open>L\<close> hold.
\<close>

theorem later_cells_ignore_derived_values:
  "Option.bind (component_option (run_all recorded fresh_kernel) ''Q1'' ''hfss_inductance'') quantity
     \<noteq> global_of (run_all recorded fresh_kernel) ''L''
   \<and> Option.bind (setup_var (run_all recorded fresh_kernel) ''Lj'') quantity
     \<noteq> global_of (run_all recorded fresh_kernel) ''L''
   \<and> check_f (spec_L f_target (spec_C e_charge h_planck alpha_target))
        (spec_C e_charge h_planck alpha_target) = Inr (5 * 10 ^ 9)
   \<and> global_of (run_all recorded fresh_kernel) ''L''
     = Some (spec_L f_target (spec_C e_charge h_planck alpha_target))
   \<and> global_of (run_all recorded fresh_kernel) ''C''
     = Some (spec_C e_charge h_planck alpha_target)
   \<and> global_of (run_all recorded fresh_kernel) ''f'' \<noteq> Some (5 * 10 ^ 9)
   \<and> trace_of (later_cells recorded (fresh_kernel\<lparr>globals := [''C'' \<mapsto> 1, ''L'' \<mapsto> 1]\<rparr>))
     = trace_of (later_cells recorded (fresh_kernel\<lparr>globals := [''C'' \<mapsto> 2, ''L'' \<mapsto> 3]\<rparr>))"
proof -
  let ?C = "spec_C e_charge h_planck alpha_target"
  let ?L = "spec_L f_target ?C"
  let ?r = "run_all recorded fresh_kernel"
  have gl: "global_of ?r ''L'' = Some ?L" and gc: "global_of ?r ''C'' = Some ?C"
    and gf: "global_of ?r ''f'' = Some (spec_f check_Lj check_Cq)"
    by (simp_all add: global_of_def run_all_result)
  have q: "Option.bind (component_option ?r ''Q1'' ''hfss_inductance'') quantity = Some check_Lj"
    by (simp add: component_option_def run_all_result qubit_Q1_def design_options_def
        quantity_13nH check_Lj_def)
  have v: "Option.bind (setup_var ?r ''Lj'') quantity = Some check_Lj"
    by (simp add: setup_var_def run_all_result assign_setup_def quantity_13_nH check_Lj_def)
  have cp: "0 < ?C"
    using constants_pos by (simp add: spec_C_pos)
  have lp: "0 < ?L"
    using cp constants_pos by (simp add: spec_L_pos)
  have "check_f ?L ?C = Inr (spec_f ?L ?C)"
    using cp lp by (simp add: check_f_spec)
  then have "check_f ?L ?C = Inr f_target"
    using cp constants_pos by (simp add: spec_roundtrip)
  then have rt: "check_f ?L ?C = Inr (5 * 10 ^ 9)"
    by (simp add: f_target_def)
  have "spec_f check_Lj check_Cq / 10 ^ 9 \<noteq> 5"
    using f_gigahertz_bounds(2) by simp
  then have nf: "spec_f check_Lj check_Cq \<noteq> 5 * 10 ^ 9"
    by auto
  have t: "trace_of (later_cells recorded (fresh_kernel\<lparr>globals := [''C'' \<mapsto> 1, ''L'' \<mapsto> 1]\<rparr>))
     = trace_of (later_cells recorded (fresh_kernel\<lparr>globals := [''C'' \<mapsto> 2, ''L'' \<mapsto> 3]\<rparr>))"
    by (simp add: later_cells_result trace_of_def)
  show ?thesis
    using gl gc gf q v rt nf t L_henry_not_13 by simp
qed

text \<open>
  C1 (amended): the derivation cell stores \<open>C = e\<^sup>2 / (2 h alpha)\<close> and \<open>L = 1 / ((2 \<pi> f)\<^sup>2 C)\<close> for
  the constants of the notebook. The later cells never read the two variables: run from a state
  in which \<open>C\<close> and \<open>L\<close> are overwritten, they do the same and leave the overwritten values. What
  they use instead are literals: the qubit gets the inductance \<^verbatim>\<open>'13nH'\<close> and the eigenmode
  setup \<^verbatim>\<open>'13 nH'\<close>, both \<open>13 \<times> 10\<^sup>-\<^sup>9\<close> H, and the last cell stores and prints the frequency that
  the formula gives on \<open>13 \<times> 10\<^sup>-\<^sup>9\<close> and \<open>78 \<times> 10\<^sup>-\<^sup>1\<^sup>5\<close>. The first is \<open>L\<close> rounded to the nearest nH
  and the second is within 1 fF of \<open>C\<close>.
\<close>

theorem derived_values_and_their_use:
  "\<exists>s1 C L fr. cell_derivation s = Inr s1
     \<and> globals s1 ''e'' = Some (1.60217657 / 10 ^ 19)
     \<and> globals s1 ''h'' = Some (6.62606957 / 10 ^ 34)
     \<and> globals s1 ''alpha'' = Some (250 * 10 ^ 6)
     \<and> globals s1 ''f'' = Some (5 * 10 ^ 9)
     \<and> globals s1 ''C'' = Some C \<and> globals s1 ''L'' = Some L
     \<and> C = e_charge ^ 2 / (2 * h_planck * alpha_target)
     \<and> L = 1 / ((2 * pi * f_target) ^ 2 * C)
     \<and> later_cells ext (s1\<lparr>globals := (globals s1)(''C'' \<mapsto> c, ''L'' \<mapsto> l)\<rparr>)
         = map_sum id (\<lambda>k. k\<lparr>globals := (globals k)(''C'' \<mapsto> c, ''L'' \<mapsto> l)\<rparr>)
             (later_cells ext s1)
     \<and> Option.bind (component_option (later_cells ext s1) ''Q1'' ''hfss_inductance'') quantity
         = Some (13 / 10 ^ 9)
     \<and> Option.bind (setup_var (later_cells ext s1) ''Lj'') quantity = Some (13 / 10 ^ 9)
     \<and> check_f (13 / 10 ^ 9) (78 / 10 ^ 15) = Inr fr
     \<and> global_of (later_cells ext s1) ''f'' = Some fr
     \<and> printed (trace_of (later_cells ext (s1\<lparr>trace := []\<rparr>))) = [fr / 10 ^ 9]
     \<and> round (L / (1 / 10 ^ 9)) = 13
     \<and> \<bar>78 / 10 ^ 15 - C\<bar> < 1 / 10 ^ 15"
proof -
  let ?C = "spec_C e_charge h_planck alpha_target"
  let ?L = "spec_L f_target ?C"
  let ?f = "spec_f check_Lj check_Cq"
  obtain s1 where r: "cell_derivation s = Inr s1"
    and g: "globals s1 ''e'' = Some e_charge" "globals s1 ''h'' = Some h_planck"
      "globals s1 ''alpha'' = Some alpha_target" "globals s1 ''f'' = Some f_target"
      "globals s1 ''C'' = Some ?C" "globals s1 ''L'' = Some ?L"
    by (simp add: cell_derivation_result)
  have n: "globals s1 ''e'' = Some (1.60217657 / 10 ^ 19)"
    "globals s1 ''h'' = Some (6.62606957 / 10 ^ 34)"
    "globals s1 ''alpha'' = Some (250 * 10 ^ 6)"
    "globals s1 ''f'' = Some (5 * 10 ^ 9)"
    using g by (simp_all add: e_charge_def h_planck_def alpha_target_def f_target_def)
  have c: "?C = e_charge ^ 2 / (2 * h_planck * alpha_target)"
    by (simp add: spec_C_def)
  have l: "?L = 1 / ((2 * pi * f_target) ^ 2 * ?C)"
    by (simp add: spec_L_def)
  have u: "later_cells ext (s1\<lparr>globals := (globals s1)(''C'' \<mapsto> c, ''L'' \<mapsto> l)\<rparr>)
         = map_sum id (\<lambda>k. k\<lparr>globals := (globals k)(''C'' \<mapsto> c, ''L'' \<mapsto> l)\<rparr>)
             (later_cells ext s1)"
    by (simp add: later_cells_result fun_upd_twist)
  have q: "Option.bind (component_option (later_cells ext s1) ''Q1'' ''hfss_inductance'') quantity
         = Some (13 / 10 ^ 9)"
    by (simp add: component_option_def later_cells_result qubit_Q1_def design_options_def
        quantity_13nH)
  have v: "Option.bind (setup_var (later_cells ext s1) ''Lj'') quantity = Some (13 / 10 ^ 9)"
    by (simp add: setup_var_def later_cells_result assign_setup_def quantity_13_nH)
  have "check_f check_Lj check_Cq = Inr ?f"
    by (rule check_f_spec[OF check_literals_pos])
  then have f: "check_f (13 / 10 ^ 9) (78 / 10 ^ 15) = Inr ?f"
    by (simp only: check_Lj_def check_Cq_def)
  have gf: "global_of (later_cells ext s1) ''f'' = Some ?f"
    by (simp add: global_of_def later_cells_result)
  have p: "printed (trace_of (later_cells ext (s1\<lparr>trace := []\<rparr>))) = [?f / 10 ^ 9]"
    by (simp add: later_cells_result trace_of_def)
  have k: "\<bar>78 / 10 ^ 15 - ?C\<bar> < 1 / 10 ^ 15"
    using C_farad_near_78(1) by (simp only: check_Cq_def)
  show ?thesis
    using r n g(5,6) c l u q v f gf p k L_rounds_to_13 by blast
qed


text \<open>
  C5 (as stated, fails): the derived capacitance and inductance are printed before the first simulation run, not
  after; after the simulations one value is printed; and the trace of the run is the same
  whether the simulator reports 4.86 GHz or 1 GHz, so nothing is compared with it.
\<close>

theorem derived_values_printed_before_runs:
  "printed (takeWhile (Not \<circ> is_sim_run) (trace_of (run_all recorded fresh_kernel)))
     = [spec_C e_charge h_planck alpha_target * 10 ^ 15,
        spec_L f_target (spec_C e_charge h_planck alpha_target) * 10 ^ 9]
   \<and> printed (dropWhile (Not \<circ> is_sim_run) (trace_of (run_all recorded fresh_kernel)))
     = [spec_f check_Lj check_Cq / 10 ^ 9]
   \<and> trace_of (run_all (recorded\<lparr>eigenfrequency_ghz := 1\<rparr>) fresh_kernel)
     = trace_of (run_all recorded fresh_kernel)"
  by (simp add: run_all_result trace_of_def fresh_kernel_def recorded_def)

text \<open>
  C5 (amended): the run prints \<open>C\<close> in fF and \<open>L\<close> in nH in its first cell, before the simulations,
  and after them prints one scalar, the frequency in GHz recomputed from the literals 13 nH and
  78 fF, which is within \<open>10\<^sup>-\<^sup>1\<^sup>5\<close> of 4.998056418164591. No other scalar is printed and no
  comparison is evaluated.
\<close>

theorem printed_scalars:
  "\<exists>C L f. trace_of (run_all ext s) = trace s @
        [Print (C / (1 / 10 ^ 15)), Print (L / (1 / 10 ^ 9)),
         Gui ''MetalGUI'', Gui ''rebuild'', Gui ''autoscale'',
         Sim_run Q3D [''Q1''] [] None, Display_matrix (capacitance_matrix ext),
         Display_setup (assign_setup (default_setup ext)),
         Sim_run HFSS [''Q1''] [] (Some []),
         Print (f / 10 ^ 9)]
     \<and> derive e_charge h_planck alpha_target f_target = Inr (C, L)
     \<and> check_f (13 / 10 ^ 9) (78 / 10 ^ 15) = Inr f
     \<and> \<bar>f / 10 ^ 9 - 4.998056418164591\<bar> < 1 / 10 ^ 15"
proof -
  let ?C = "spec_C e_charge h_planck alpha_target"
  let ?L = "spec_L f_target ?C"
  let ?f = "spec_f check_Lj check_Cq"
  have t: "trace_of (run_all ext s) = trace s @
        [Print (?C / (1 / 10 ^ 15)), Print (?L / (1 / 10 ^ 9)),
         Gui ''MetalGUI'', Gui ''rebuild'', Gui ''autoscale'',
         Sim_run Q3D [''Q1''] [] None, Display_matrix (capacitance_matrix ext),
         Display_setup (assign_setup (default_setup ext)),
         Sim_run HFSS [''Q1''] [] (Some []),
         Print (?f / 10 ^ 9)]"
    by (simp add: run_all_result trace_of_def)
  have "check_f check_Lj check_Cq = Inr ?f"
    by (rule check_f_spec[OF check_literals_pos])
  then have f: "check_f (13 / 10 ^ 9) (78 / 10 ^ 15) = Inr ?f"
    by (simp only: check_Lj_def check_Cq_def)
  have b: "\<bar>?f / 10 ^ 9 - 4.998056418164591\<bar> < 1 / 10 ^ 15"
    using f_gigahertz_bounds by (simp add: abs_less_iff)
  show ?thesis
    using t derive_constants f b by blast
qed

section \<open>Evaluation in binary64\<close>

text \<open>Each operation of the evaluations below, one rounding at a time.\<close>

lemma literal_1:
  "literal 1 0 = Finite 4503599627370496 (- 52)"
  by (simp add: literal_def round_double_def round_magnitude_def ilog2_def round_half_even_def Let_def)

lemma literal_2:
  "literal 2 0 = Finite 4503599627370496 (- 51)"
  by (simp add: literal_def round_double_def round_magnitude_def ilog2_def round_half_even_def Let_def)

lemma literal_pi:
  "literal 3141592653589793 (- 15) = Finite 7074237752028440 (- 51)"
  by (simp add: literal_def round_double_def round_magnitude_def ilog2_def round_half_even_def Let_def)

lemma literal_e:
  "literal 160217657 (- 27) = Finite 6655181096983284 (- 115)"
  by (simp add: literal_def round_double_def round_magnitude_def ilog2_def round_half_even_def Let_def)

lemma literal_h:
  "literal 662606957 (- 42) = Finite 7747209220498777 (- 163)"
  by (simp add: literal_def round_double_def round_magnitude_def ilog2_def round_half_even_def Let_def)

lemma literal_250e6:
  "literal 250 6 = Finite 8388608000000000 (- 25)"
  by (simp add: literal_def round_double_def round_magnitude_def ilog2_def round_half_even_def Let_def)

lemma literal_5e9:
  "literal 5 9 = Finite 5242880000000000 (- 20)"
  by (simp add: literal_def round_double_def round_magnitude_def ilog2_def round_half_even_def Let_def)

lemma literal_1e_15:
  "literal 1 (- 15) = Finite 5070602400912918 (- 102)"
  by (simp add: literal_def round_double_def round_magnitude_def ilog2_def round_half_even_def Let_def)

lemma literal_1e_9:
  "literal 1 (- 9) = Finite 4835703278458517 (- 82)"
  by (simp add: literal_def round_double_def round_magnitude_def ilog2_def round_half_even_def Let_def)

lemma literal_1e9:
  "literal 1 9 = Finite 8388608000000000 (- 23)"
  by (simp add: literal_def round_double_def round_magnitude_def ilog2_def round_half_even_def Let_def)

lemma square_e:
  "py_square_double (Finite 6655181096983284 (- 115)) = Inr (Finite 4917337141212966 (- 177))"
  by (simp add: round_double_def round_magnitude_def ilog2_def round_half_even_def Let_def)

lemma e2_over_2:
  "fdiv (Finite 4917337141212966 (- 177)) (Finite 4503599627370496 (- 51)) = Finite 4917337141212966 (- 178)"
  by (simp add: round_double_def round_magnitude_def ilog2_def round_half_even_def Let_def)

lemma e2_over_2h:
  "fdiv (Finite 4917337141212966 (- 178)) (Finite 7747209220498777 (- 163)) = Finite 5717082651705136 (- 68)"
  by (simp add: round_double_def round_magnitude_def ilog2_def round_half_even_def Let_def)

lemma C_250e6:
  "fdiv (Finite 5717082651705136 (- 68)) (Finite 8388608000000000 (- 25)) = Finite 6138670754400629 (- 96)"
  by (simp add: round_double_def round_magnitude_def ilog2_def round_half_even_def Let_def)

lemma inv_C_250e6:
  "fdiv (Finite 4503599627370496 (- 52)) (Finite 6138670754400629 (- 96)) = Finite 6608078659084890 (- 9)"
  by (simp add: round_double_def round_magnitude_def ilog2_def round_half_even_def Let_def)

lemma two_pi:
  "fmul (Finite 4503599627370496 (- 51)) (Finite 7074237752028440 (- 51)) = Finite 7074237752028440 (- 50)"
  by (simp add: round_double_def round_magnitude_def ilog2_def round_half_even_def Let_def)

lemma omega_5e9:
  "fmul (Finite 7074237752028440 (- 50)) (Finite 5242880000000000 (- 20)) = Finite 8235496645826427 (- 18)"
  by (simp add: round_double_def round_magnitude_def ilog2_def round_half_even_def Let_def)

lemma omega2_5e9:
  "py_square_double (Finite 8235496645826427 (- 18)) = Inr (Finite 7529910584327207 (17))"
  by (simp add: round_double_def round_magnitude_def ilog2_def round_half_even_def Let_def)

lemma L_250e6_5e9:
  "fdiv (Finite 6608078659084890 (- 9)) (Finite 7529910584327207 (17)) = Finite 7904513673411353 (- 79)"
  by (simp add: round_double_def round_magnitude_def ilog2_def round_half_even_def Let_def)

lemma print_C:
  "fdiv (Finite 6138670754400629 (- 96)) (Finite 5070602400912918 (- 102)) = Finite 5452234889702926 (- 46)"
  by (simp add: round_double_def round_magnitude_def ilog2_def round_half_even_def Let_def)

lemma print_L:
  "fdiv (Finite 7904513673411353 (- 79)) (Finite 4835703278458517 (- 82)) = Finite 7361652025404715 (- 49)"
  by (simp add: round_double_def round_magnitude_def ilog2_def round_half_even_def Let_def)

lemma stored_C:
  "literal 774809178907237 (- 13) = Finite 5452234889702926 (- 46)"
  by (simp add: literal_def round_double_def round_magnitude_def ilog2_def round_half_even_def Let_def)

lemma stored_L:
  "literal 13076920924612372 (- 15) = Finite 7361652025404715 (- 49)"
  by (simp add: literal_def round_double_def round_magnitude_def ilog2_def round_half_even_def Let_def)

lemma LC_roundtrip:
  "fmul (Finite 7904513673411353 (- 79)) (Finite 6138670754400629 (- 96)) = Finite 5387158154538403 (- 122)"
  by (simp add: round_double_def round_magnitude_def ilog2_def round_half_even_def Let_def)

lemma sqrt_LC_roundtrip:
  "fsqrt (Finite 5387158154538403 (- 122)) = Finite 4925606912591085 (- 87)"
  by (simp add: round_double_def round_magnitude_def ilog2_def round_half_even_def Let_def)

lemma inv_sqrt_roundtrip:
  "fdiv (Finite 4503599627370496 (- 52)) (Finite 4925606912591085 (- 87)) = Finite 8235496645826426 (- 18)"
  by (simp add: round_double_def round_magnitude_def ilog2_def round_half_even_def Let_def)

lemma half_inv_sqrt_roundtrip:
  "fdiv (Finite 8235496645826426 (- 18)) (Finite 4503599627370496 (- 51)) = Finite 8235496645826426 (- 19)"
  by (simp add: round_double_def round_magnitude_def ilog2_def round_half_even_def Let_def)

lemma f_roundtrip:
  "fdiv (Finite 8235496645826426 (- 19)) (Finite 7074237752028440 (- 51)) = Finite 5242879999999999 (- 20)"
  by (simp add: round_double_def round_magnitude_def ilog2_def round_half_even_def Let_def)

lemma literal_13e_9:
  "literal 13 (- 9) = Finite 7858017827495090 (- 79)"
  by (simp add: literal_def round_double_def round_magnitude_def ilog2_def round_half_even_def Let_def)

lemma literal_78e_15:
  "literal 78 (- 15) = Finite 6179796676112618 (- 96)"
  by (simp add: literal_def round_double_def round_magnitude_def ilog2_def round_half_even_def Let_def)

lemma LC_check:
  "fmul (Finite 7858017827495090 (- 79)) (Finite 6179796676112618 (- 96)) = Finite 5391348750903619 (- 122)"
  by (simp add: round_double_def round_magnitude_def ilog2_def round_half_even_def Let_def)

lemma sqrt_LC_check:
  "fsqrt (Finite 5391348750903619 (- 122)) = Finite 4927522321166483 (- 87)"
  by (simp add: round_double_def round_magnitude_def ilog2_def round_half_even_def Let_def)

lemma inv_sqrt_check:
  "fdiv (Finite 4503599627370496 (- 52)) (Finite 4927522321166483 (- 87)) = Finite 8232295373489147 (- 18)"
  by (simp add: round_double_def round_magnitude_def ilog2_def round_half_even_def Let_def)

lemma half_inv_sqrt_check:
  "fdiv (Finite 8232295373489147 (- 18)) (Finite 4503599627370496 (- 51)) = Finite 8232295373489147 (- 19)"
  by (simp add: round_double_def round_magnitude_def ilog2_def round_half_even_def Let_def)

lemma f_check:
  "fdiv (Finite 8232295373489147 (- 19)) (Finite 7074237752028440 (- 51)) = Finite 5240842006733354 (- 20)"
  by (simp add: round_double_def round_magnitude_def ilog2_def round_half_even_def Let_def)

lemma print_f:
  "fdiv (Finite 5240842006733354 (- 20)) (Finite 8388608000000000 (- 23)) = Finite 5627311255605692 (- 50)"
  by (simp add: round_double_def round_magnitude_def ilog2_def round_half_even_def Let_def)

lemma stored_f:
  "literal 4998056418164591 (- 15) = Finite 5627311255605692 (- 50)"
  by (simp add: literal_def round_double_def round_magnitude_def ilog2_def round_half_even_def Let_def)

lemma literal_1e_200:
  "literal 1 (- 200) = Finite 6894565328877484 (- 717)"
  by (simp add: literal_def round_double_def round_magnitude_def ilog2_def round_half_even_def Let_def)

lemma literal_1e200:
  "literal 1 200 = Finite 5883593420661338 (612)"
  by (simp add: literal_def round_double_def round_magnitude_def ilog2_def round_half_even_def Let_def)

lemma omega_1e_200:
  "fmul (Finite 7074237752028440 (- 50)) (Finite 6894565328877484 (- 717)) = Finite 5414978946724100 (- 714)"
  by (simp add: round_double_def round_magnitude_def ilog2_def round_half_even_def Let_def)

lemma omega2_1e_200:
  "py_square_double (Finite 5414978946724100 (- 714)) = Inr (Finite 0 (0))"
  by (simp add: round_double_def round_magnitude_def ilog2_def round_half_even_def Let_def)

lemma omega_1e200:
  "fmul (Finite 7074237752028440 (- 50)) (Finite 5883593420661338 (612)) = Finite 4620963466764725 (615)"
  by (simp add: round_double_def round_magnitude_def ilog2_def round_half_even_def Let_def)

lemma omega2_1e200:
  "py_square_double (Finite 4620963466764725 (615)) = Inl OverflowError"
  by (simp add: round_double_def round_magnitude_def ilog2_def round_half_even_def Let_def)

lemma literal_300e6:
  "literal 300 6 = Finite 5033164800000000 (- 24)"
  by (simp add: literal_def round_double_def round_magnitude_def ilog2_def round_half_even_def Let_def)

lemma C_300e6:
  "fdiv (Finite 5717082651705136 (- 68)) (Finite 5033164800000000 (- 24)) = Finite 5115558962000525 (- 96)"
  by (simp add: round_double_def round_magnitude_def ilog2_def round_half_even_def Let_def)

lemma inv_C_300e6:
  "fdiv (Finite 4503599627370496 (- 52)) (Finite 5115558962000525 (- 96)) = Finite 7929694390901867 (- 9)"
  by (simp add: round_double_def round_magnitude_def ilog2_def round_half_even_def Let_def)

lemma L_300e6_5e9:
  "fdiv (Finite 7929694390901867 (- 9)) (Finite 7529910584327207 (17)) = Finite 4742708204046811 (- 78)"
  by (simp add: round_double_def round_magnitude_def ilog2_def round_half_even_def Let_def)

lemma L_over_alpha_250e6:
  "fdiv (Finite 7904513673411353 (- 79)) (Finite 8388608000000000 (- 25)) = Finite 8487406929521646 (- 107)"
  by (simp add: round_double_def round_magnitude_def ilog2_def round_half_even_def Let_def)

lemma L_over_alpha_300e6:
  "fdiv (Finite 4742708204046811 (- 78)) (Finite 5033164800000000 (- 24)) = Finite 8487406929521645 (- 107)"
  by (simp add: round_double_def round_magnitude_def ilog2_def round_half_even_def Let_def)

lemma LC_300e6:
  "fmul (Finite 4742708204046811 (- 78)) (Finite 5115558962000525 (- 96)) = Finite 5387158154538403 (- 122)"
  by (simp add: round_double_def round_magnitude_def ilog2_def round_half_even_def Let_def)

lemma inv_omega2_5e9:
  "fdiv (Finite 4503599627370496 (- 52)) (Finite 7529910584327207 (17)) = Finite 5387158154538403 (- 122)"
  by (simp add: round_double_def round_magnitude_def ilog2_def round_half_even_def Let_def)

lemma literal_4e9:
  "literal 4 9 = Finite 8388608000000000 (- 21)"
  by (simp add: literal_def round_double_def round_magnitude_def ilog2_def round_half_even_def Let_def)

lemma omega_4e9:
  "fmul (Finite 7074237752028440 (- 50)) (Finite 8388608000000000 (- 21)) = Finite 6588397316661142 (- 18)"
  by (simp add: round_double_def round_magnitude_def ilog2_def round_half_even_def Let_def)

lemma omega2_4e9:
  "py_square_double (Finite 6588397316661142 (- 18)) = Inr (Finite 4819142773969413 (17))"
  by (simp add: round_double_def round_magnitude_def ilog2_def round_half_even_def Let_def)

lemma L_250e6_4e9:
  "fdiv (Finite 6608078659084890 (- 9)) (Finite 4819142773969413 (17)) = Finite 6175401307352618 (- 78)"
  by (simp add: round_double_def round_magnitude_def ilog2_def round_half_even_def Let_def)

lemma LC_4e9:
  "fmul (Finite 6175401307352618 (- 78)) (Finite 6138670754400629 (- 96)) = Finite 8417434616466252 (- 122)"
  by (simp add: round_double_def round_magnitude_def ilog2_def round_half_even_def Let_def)

lemma inv_omega2_4e9:
  "fdiv (Finite 4503599627370496 (- 52)) (Finite 4819142773969413 (17)) = Finite 8417434616466253 (- 122)"
  by (simp add: round_double_def round_magnitude_def ilog2_def round_half_even_def Let_def)

lemma C_next_after_250e6:
  "fdiv (Finite 5717082651705136 (- 68)) (Finite 8388608000000001 (- 25)) = Finite 6138670754400629 (- 96)"
  by (simp add: round_double_def round_magnitude_def ilog2_def round_half_even_def Let_def)

lemmas binary64_literals = literal_1 literal_2 literal_pi literal_e literal_h literal_250e6
  literal_5e9 literal_1e_15 literal_1e_9 literal_1e9 stored_C stored_L literal_13e_9
  literal_78e_15 stored_f literal_1e_200 literal_1e200 literal_300e6 literal_4e9

lemmas binary64_steps = square_e e2_over_2 e2_over_2h C_250e6 inv_C_250e6 two_pi omega_5e9
  omega2_5e9 L_250e6_5e9 print_C print_L LC_roundtrip sqrt_LC_roundtrip inv_sqrt_roundtrip
  half_inv_sqrt_roundtrip f_roundtrip LC_check sqrt_LC_check inv_sqrt_check half_inv_sqrt_check
  f_check print_f omega_1e_200 omega2_1e_200 omega_1e200 omega2_1e200 C_300e6 inv_C_300e6
  L_300e6_5e9 L_over_alpha_250e6 L_over_alpha_300e6 LC_300e6 inv_omega2_5e9 omega_4e9
  omega2_4e9 L_250e6_4e9 LC_4e9 inv_omega2_4e9 C_next_after_250e6

text \<open>The expressions of the notebook, composed of these steps.\<close>

lemma derive_C_double_250e6:
  "derive_C_double e_double h_double (literal 250 6) = Inr (Finite 6138670754400629 (- 96))"
  by (simp add: derive_C_double_def and_then_def py_truediv_double_def e_double_def h_double_def
      binary64_literals binary64_steps del: fdiv.simps py_square_double.simps)

lemma derive_C_double_300e6:
  "derive_C_double e_double h_double (literal 300 6) = Inr (Finite 5115558962000525 (- 96))"
  by (simp add: derive_C_double_def and_then_def py_truediv_double_def e_double_def h_double_def
      binary64_literals binary64_steps del: fdiv.simps py_square_double.simps)

lemma derive_C_double_next_after_250e6:
  "derive_C_double e_double h_double (Finite 8388608000000001 (- 25))
     = Inr (Finite 6138670754400629 (- 96))"
  by (simp add: derive_C_double_def and_then_def py_truediv_double_def e_double_def h_double_def
      binary64_literals binary64_steps del: fdiv.simps py_square_double.simps)

lemma derive_L_double_250e6_5e9:
  "derive_L_double (Finite 6138670754400629 (- 96)) (literal 5 9)
     = Inr (Finite 7904513673411353 (- 79))"
  by (simp add: derive_L_double_def and_then_def py_truediv_double_def np_pi_def
      binary64_literals binary64_steps del: fmul.simps fdiv.simps py_square_double.simps)

lemma derive_L_double_300e6_5e9:
  "derive_L_double (Finite 5115558962000525 (- 96)) (literal 5 9)
     = Inr (Finite 4742708204046811 (- 78))"
  by (simp add: derive_L_double_def and_then_def py_truediv_double_def np_pi_def
      binary64_literals binary64_steps del: fmul.simps fdiv.simps py_square_double.simps)

lemma derive_L_double_250e6_4e9:
  "derive_L_double (Finite 6138670754400629 (- 96)) (literal 4 9)
     = Inr (Finite 6175401307352618 (- 78))"
  by (simp add: derive_L_double_def and_then_def py_truediv_double_def np_pi_def
      binary64_literals binary64_steps del: fmul.simps fdiv.simps py_square_double.simps)

lemma derive_L_double_1e_200:
  "derive_L_double (Finite 6138670754400629 (- 96)) (literal 1 (- 200)) = Inl ZeroDivisionError"
  by (simp add: derive_L_double_def and_then_def py_truediv_double_def np_pi_def
      binary64_literals binary64_steps del: fmul.simps fdiv.simps py_square_double.simps)

lemma derive_L_double_1e200:
  "derive_L_double (Finite 6138670754400629 (- 96)) (literal 1 200) = Inl OverflowError"
  by (simp add: derive_L_double_def and_then_def py_truediv_double_def np_pi_def
      binary64_literals binary64_steps del: fmul.simps fdiv.simps py_square_double.simps)

lemma derive_double_250e6_5e9:
  "derive_double e_double h_double (literal 250 6) (literal 5 9)
     = Inr (Finite 6138670754400629 (- 96), Finite 7904513673411353 (- 79))"
  by (simp add: derive_double_def and_then_def derive_C_double_250e6 derive_L_double_250e6_5e9)

lemma derive_double_300e6_5e9:
  "derive_double e_double h_double (literal 300 6) (literal 5 9)
     = Inr (Finite 5115558962000525 (- 96), Finite 4742708204046811 (- 78))"
  by (simp add: derive_double_def and_then_def derive_C_double_300e6 derive_L_double_300e6_5e9)

lemma derive_double_250e6_4e9:
  "derive_double e_double h_double (literal 250 6) (literal 4 9)
     = Inr (Finite 6138670754400629 (- 96), Finite 6175401307352618 (- 78))"
  by (simp add: derive_double_def and_then_def derive_C_double_250e6 derive_L_double_250e6_4e9)

lemma check_f_double_roundtrip:
  "check_f_double (Finite 7904513673411353 (- 79)) (Finite 6138670754400629 (- 96))
     = Finite 5242879999999999 (- 20)"
  by (simp add: check_f_double_def np_pi_def binary64_literals binary64_steps
      del: fmul.simps fdiv.simps fsqrt.simps)

lemma check_f_double_literals:
  "check_f_double (literal 13 (- 9)) (literal 78 (- 15)) = Finite 5240842006733354 (- 20)"
  by (simp add: check_f_double_def np_pi_def binary64_literals binary64_steps
      del: fmul.simps fdiv.simps fsqrt.simps)

lemma inverse_omega2_double_5e9:
  "inverse_omega2_double (literal 5 9) = Inr (Finite 5387158154538403 (- 122))"
  by (simp add: inverse_omega2_double_def and_then_def py_truediv_double_def np_pi_def
      binary64_literals binary64_steps del: fmul.simps fdiv.simps py_square_double.simps)

lemma inverse_omega2_double_4e9:
  "inverse_omega2_double (literal 4 9) = Inr (Finite 8417434616466253 (- 122))"
  by (simp add: inverse_omega2_double_def and_then_def py_truediv_double_def np_pi_def
      binary64_literals binary64_steps del: fmul.simps fdiv.simps py_square_double.simps)

text \<open>
  The binary64 evaluation gives the three numbers that the stored outputs of the notebook
  show: \<^verbatim>\<open>77.4809178907237\<close>, \<^verbatim>\<open>13.076920924612372\<close> and \<^verbatim>\<open>4.998056418164591\<close> denote the
  values of \<^verbatim>\<open>C/1e-15\<close>, \<^verbatim>\<open>L/1e-9\<close> and \<^verbatim>\<open>f/1e9\<close>.
\<close>

lemma binary64_gives_stored_outputs:
  "py_truediv_double (Finite 6138670754400629 (- 96)) (literal 1 (- 15))
     = Inr (literal 774809178907237 (- 13))"
  "py_truediv_double (Finite 7904513673411353 (- 79)) (literal 1 (- 9))
     = Inr (literal 13076920924612372 (- 15))"
  "fdiv (check_f_double (literal 13 (- 9)) (literal 78 (- 15))) (literal 1 9)
     = literal 4998056418164591 (- 15)"
  by (simp_all add: py_truediv_double_def check_f_double_literals literal_1e_15 literal_1e_9
      literal_1e9 stored_C stored_L stored_f print_C print_L print_f
      del: fmul.simps fdiv.simps fsqrt.simps)


section \<open>Exact arithmetic against binary64\<close>

text \<open>
  C2 (as stated, fails): on the binary64 numbers of the kernel the round trip at the design
  values \<open>f = 5e9\<close>, \<open>alpha = 250e6\<close> returns \<open>5242879999999999 \<times> 2\<^sup>-\<^sup>2\<^sup>0\<close>, one unit in the last
  place below \<open>5e9 = 5242880000000000 \<times> 2\<^sup>-\<^sup>2\<^sup>0\<close>.
\<close>

theorem roundtrip_inexact_in_binary64:
  "roundtrip_double e_double h_double (literal 250 6) (literal 5 9)
     = Inr (Finite 5242879999999999 (- 20))
   \<and> literal 5 9 = Finite 5242880000000000 (- 20)
   \<and> value_of (literal 5 9) = Some (5 * 10 ^ 9)
   \<and> value_of (literal 250 6) = Some (250 * 10 ^ 6)
   \<and> roundtrip_double e_double h_double (literal 250 6) (literal 5 9) \<noteq> Inr (literal 5 9)"
proof -
  have r: "roundtrip_double e_double h_double (literal 250 6) (literal 5 9)
     = Inr (Finite 5242879999999999 (- 20))"
    by (simp add: roundtrip_double_def and_then_def derive_double_250e6_5e9
        check_f_double_roundtrip)
  have "Inr (Finite 5242879999999999 (- 20)) \<noteq> (Inr (literal 5 9) :: fault + double)"
    by (simp add: literal_5e9)
  moreover have "value_of (literal 5 9) = Some (5 * 10 ^ 9)"
    "value_of (literal 250 6) = Some (250 * 10 ^ 6)"
    by (simp_all add: literal_5e9 literal_250e6)
  ultimately show ?thesis
    using r literal_5e9 by simp
qed

text \<open>
  C2 (amended): in exact real arithmetic, for every positive \<open>f\<close> and \<open>alpha\<close> the derivation
  yields \<open>C = e\<^sup>2 / (2 h alpha)\<close> and \<open>L = 1 / ((2 \<pi> f)\<^sup>2 C)\<close> and the frequency formula of the
  last cell returns exactly \<open>f\<close> on them; in binary64 at the design values the round trip
  returns a number within \<open>2\<^sup>-\<^sup>2\<^sup>0\<close> of \<open>f\<close>.
\<close>

theorem roundtrip_frequency:
  assumes "0 < f" "0 < alpha"
  shows "(\<exists>C L. derive e_charge h_planck alpha f = Inr (C, L)
            \<and> C = e_charge ^ 2 / (2 * h_planck * alpha)
            \<and> L = 1 / ((2 * pi * f) ^ 2 * C)
            \<and> check_f L C = Inr f)
         \<and> (\<exists>r v. roundtrip_double e_double h_double (literal 250 6) (literal 5 9) = Inr r
              \<and> value_of r = Some v \<and> \<bar>v - 5 * 10 ^ 9\<bar> \<le> 1 / 2 ^ 20)"
proof -
  let ?C = "spec_C e_charge h_planck alpha"
  let ?L = "spec_L f ?C"
  have d: "derive e_charge h_planck alpha f = Inr (?C, ?L)"
    using assms constants_pos by (simp add: derive_spec)
  have cp: "0 < ?C"
    using assms constants_pos by (simp add: spec_C_pos)
  have lp: "0 < ?L"
    using cp assms by (simp add: spec_L_pos)
  have "check_f ?L ?C = Inr (spec_f ?L ?C)"
    using cp lp by (simp add: check_f_spec)
  then have "check_f ?L ?C = Inr f"
    using cp assms by (simp add: spec_roundtrip)
  then have exact: "\<exists>C L. derive e_charge h_planck alpha f = Inr (C, L)
            \<and> C = e_charge ^ 2 / (2 * h_planck * alpha)
            \<and> L = 1 / ((2 * pi * f) ^ 2 * C)
            \<and> check_f L C = Inr f"
    using d by (simp add: spec_C_def spec_L_def)
  have r: "roundtrip_double e_double h_double (literal 250 6) (literal 5 9)
      = Inr (Finite 5242879999999999 (- 20))"
    by (simp add: roundtrip_double_def and_then_def derive_double_250e6_5e9
        check_f_double_roundtrip)
  have v: "value_of (Finite 5242879999999999 (- 20)) = Some (5242879999999999 / 2 ^ 20)"
    by simp
  have "\<bar>5242879999999999 / 2 ^ 20 - 5 * 10 ^ 9\<bar> \<le> (1 / 2 ^ 20 :: real)"
    by simp
  then have "\<exists>r v. roundtrip_double e_double h_double (literal 250 6) (literal 5 9) = Inr r
              \<and> value_of r = Some v \<and> \<bar>v - 5 * 10 ^ 9\<bar> \<le> 1 / 2 ^ 20"
    using r v by blast
  then show ?thesis
    using exact by blast
qed

theorem roundtrip_frequency_witness:
  "(0::real) < 5 * 10 ^ 9 \<and> (0::real) < 250 * 10 ^ 6
   \<and> (\<exists>C L. derive e_charge h_planck (250 * 10 ^ 6) (5 * 10 ^ 9) = Inr (C, L)
        \<and> check_f L C = Inr (5 * 10 ^ 9))"
proof -
  have "\<exists>C L. derive e_charge h_planck (250 * 10 ^ 6) (5 * 10 ^ 9) = Inr (C, L)
        \<and> C = e_charge ^ 2 / (2 * h_planck * (250 * 10 ^ 6))
        \<and> L = 1 / ((2 * pi * (5 * 10 ^ 9)) ^ 2 * C)
        \<and> check_f L C = Inr (5 * 10 ^ 9)"
    using roundtrip_frequency[of "5 * 10 ^ 9" "250 * 10 ^ 6"] by simp
  then have "\<exists>C L. derive e_charge h_planck (250 * 10 ^ 6) (5 * 10 ^ 9) = Inr (C, L)
        \<and> check_f L C = Inr (5 * 10 ^ 9)"
    by blast
  then show ?thesis by simp
qed

text \<open>
  C9 (as stated, fails): on binary64 the error branches are reachable for positive inputs. At
  the positive frequency \<open>1e-200\<close> the square \<^verbatim>\<open>(2*np.pi*f)**2\<close> underflows to zero and the
  division by it raises \<^verbatim>\<open>ZeroDivisionError\<close>; at \<open>1e200\<close> the square raises
  \<^verbatim>\<open>OverflowError\<close>.
\<close>

theorem faults_reachable_in_binary64:
  "literal 1 (- 200) = Finite 6894565328877484 (- 717)
   \<and> derive_double e_double h_double (literal 250 6) (literal 1 (- 200)) = Inl ZeroDivisionError
   \<and> literal 1 200 = Finite 5883593420661338 612
   \<and> derive_double e_double h_double (literal 250 6) (literal 1 200) = Inl OverflowError"
proof -
  have z: "derive_double e_double h_double (literal 250 6) (literal 1 (- 200))
      = Inl ZeroDivisionError"
    by (simp add: derive_double_def and_then_def derive_C_double_250e6 derive_L_double_1e_200)
  have o: "derive_double e_double h_double (literal 250 6) (literal 1 200) = Inl OverflowError"
    by (simp add: derive_double_def and_then_def derive_C_double_250e6 derive_L_double_1e200)
  show ?thesis
    using z o literal_1e_200 literal_1e200 by simp
qed

text \<open>
  C9 (amended): in exact real arithmetic, for every \<open>alpha > 0\<close> and \<open>f > 0\<close> no division of
  the derivation has a zero divisor and the square root has a positive argument: both closed
  forms return a value, \<open>C > 0\<close>, \<open>L > 0\<close>, and the frequency formula returns a value. In
  binary64 the same holds at the values of the notebook, \<open>alpha = 250e6\<close> and \<open>f = 5e9\<close>: the
  derivation returns finite positive \<open>C\<close> and \<open>L\<close>, their product is finite and positive, and
  the frequency formula returns a finite positive number.
\<close>

theorem derivation_total:
  assumes "0 < alpha" "0 < f"
  shows "(\<exists>C L fr. derive_C e_charge h_planck alpha = Inr C \<and> 0 < C
            \<and> derive_L C f = Inr L \<and> 0 < L
            \<and> check_f L C = Inr fr)
         \<and> (\<exists>C L c l p fr. derive_double e_double h_double (literal 250 6) (literal 5 9) = Inr (C, L)
              \<and> value_of C = Some c \<and> 0 < c
              \<and> value_of L = Some l \<and> 0 < l
              \<and> value_of (fmul L C) = Some p \<and> 0 < p
              \<and> value_of (check_f_double L C) = Some fr \<and> 0 < fr)"
proof -
  let ?C = "spec_C e_charge h_planck alpha"
  let ?L = "spec_L f ?C"
  have cp: "0 < ?C"
    using assms constants_pos by (simp add: spec_C_pos)
  have lp: "0 < ?L"
    using cp assms by (simp add: spec_L_pos)
  have c: "derive_C e_charge h_planck alpha = Inr ?C"
    using assms constants_pos by (simp add: derive_C_spec)
  have l: "derive_L ?C f = Inr ?L"
    using cp assms by (simp add: derive_L_spec)
  have "check_f ?L ?C = Inr (spec_f ?L ?C)"
    using cp lp by (simp add: check_f_spec)
  then have exact: "\<exists>C L fr. derive_C e_charge h_planck alpha = Inr C \<and> 0 < C
            \<and> derive_L C f = Inr L \<and> 0 < L
            \<and> check_f L C = Inr fr"
    using c l cp lp by blast
  let ?Cd = "Finite 6138670754400629 (- 96)"
  let ?Ld = "Finite 7904513673411353 (- 79)"
  have vc: "value_of ?Cd = Some (6138670754400629 / 2 ^ 96)" "(0::real) < 6138670754400629 / 2 ^ 96"
    by simp_all
  have vl: "value_of ?Ld = Some (7904513673411353 / 2 ^ 79)" "(0::real) < 7904513673411353 / 2 ^ 79"
    by simp_all
  have vp: "value_of (fmul ?Ld ?Cd) = Some (5387158154538403 / 2 ^ 122)"
    "(0::real) < 5387158154538403 / 2 ^ 122"
    by (simp_all add: LC_roundtrip del: fmul.simps)
  have vf: "value_of (check_f_double ?Ld ?Cd) = Some (5242879999999999 / 2 ^ 20)"
    "(0::real) < 5242879999999999 / 2 ^ 20"
    by (simp_all add: check_f_double_roundtrip)
  have "\<exists>C L c l p fr. derive_double e_double h_double (literal 250 6) (literal 5 9) = Inr (C, L)
              \<and> value_of C = Some c \<and> 0 < c
              \<and> value_of L = Some l \<and> 0 < l
              \<and> value_of (fmul L C) = Some p \<and> 0 < p
              \<and> value_of (check_f_double L C) = Some fr \<and> 0 < fr"
    using derive_double_250e6_5e9 vc vl vp vf by blast
  then show ?thesis
    using exact by blast
qed

theorem derivation_total_witness:
  "(0::real) < 250 * 10 ^ 6 \<and> (0::real) < 5 * 10 ^ 9
   \<and> (\<exists>C L fr. derive_C e_charge h_planck (250 * 10 ^ 6) = Inr C \<and> 0 < C
           \<and> derive_L C (5 * 10 ^ 9) = Inr L \<and> 0 < L
           \<and> check_f L C = Inr fr)"
  using derivation_total[of "250 * 10 ^ 6" "5 * 10 ^ 9"] by simp

text \<open>
  C10 (as stated, fails): on binary64 the relations hold only up to rounding. The capacitance
  is not strictly decreasing: \<open>250e6\<close> and the next number above it give the same \<open>C\<close>. The
  quotient \<open>L / alpha\<close> differs between \<open>alpha = 250e6\<close> and \<open>alpha = 300e6\<close> at \<open>f = 5e9\<close>. At
  \<open>alpha = 250e6\<close>, \<open>f = 4e9\<close> the product \<^verbatim>\<open>L*C\<close> differs from \<^verbatim>\<open>1/(2*np.pi*f)**2\<close>.
\<close>

theorem relations_inexact_in_binary64:
  "literal 250 6 = Finite 8388608000000000 (- 25)
   \<and> derive_C_double e_double h_double (Finite 8388608000000001 (- 25))
       = derive_C_double e_double h_double (Finite 8388608000000000 (- 25))
   \<and> derive_double e_double h_double (literal 250 6) (literal 5 9)
       = Inr (Finite 6138670754400629 (- 96), Finite 7904513673411353 (- 79))
   \<and> derive_double e_double h_double (literal 300 6) (literal 5 9)
       = Inr (Finite 5115558962000525 (- 96), Finite 4742708204046811 (- 78))
   \<and> fdiv (Finite 7904513673411353 (- 79)) (literal 250 6)
       \<noteq> fdiv (Finite 4742708204046811 (- 78)) (literal 300 6)
   \<and> derive_double e_double h_double (literal 250 6) (literal 4 9)
       = Inr (Finite 6138670754400629 (- 96), Finite 6175401307352618 (- 78))
   \<and> inverse_omega2_double (literal 4 9) = Inr (Finite 8417434616466253 (- 122))
   \<and> fmul (Finite 6175401307352618 (- 78)) (Finite 6138670754400629 (- 96))
       \<noteq> Finite 8417434616466253 (- 122)"
proof -
  have a: "derive_C_double e_double h_double (Finite 8388608000000001 (- 25))
       = derive_C_double e_double h_double (Finite 8388608000000000 (- 25))"
    using derive_C_double_250e6 derive_C_double_next_after_250e6
    by (simp only: literal_250e6)
  have q: "fdiv (Finite 7904513673411353 (- 79)) (literal 250 6)
       \<noteq> fdiv (Finite 4742708204046811 (- 78)) (literal 300 6)"
    by (simp add: literal_250e6 literal_300e6 L_over_alpha_250e6 L_over_alpha_300e6
        del: fdiv.simps)
  have p: "fmul (Finite 6175401307352618 (- 78)) (Finite 6138670754400629 (- 96))
       \<noteq> Finite 8417434616466253 (- 122)"
    by (simp add: binary64_steps del: fmul.simps)
  show ?thesis
    using a q p literal_250e6 derive_double_250e6_5e9 derive_double_300e6_5e9
      derive_double_250e6_4e9 inverse_omega2_double_4e9
    by blast
qed

text \<open>
  C10 (amended): in exact real arithmetic, for \<open>0 < a1 < a2\<close> and \<open>f > 0\<close> the derived values
  satisfy \<open>L C = 1 / (2 \<pi> f)\<^sup>2\<close> whatever the anharmonicity, the capacitance is strictly smaller
  and the inductance strictly larger at the larger anharmonicity, and \<open>L / alpha\<close> is the same
  at both. In binary64, at \<open>f = 5e9\<close> with \<open>250e6\<close> and \<open>300e6\<close>, the two products \<^verbatim>\<open>L*C\<close> are
  the same number as \<^verbatim>\<open>1/(2*np.pi*f)**2\<close>, the capacitance is smaller and the inductance larger
  at \<open>300e6\<close>.
\<close>

theorem product_independent_of_alpha:
  assumes "0 < a1" "a1 < a2" "0 < f"
  shows "(\<exists>C1 L1 C2 L2.
            derive e_charge h_planck a1 f = Inr (C1, L1)
          \<and> derive e_charge h_planck a2 f = Inr (C2, L2)
          \<and> L1 * C1 = 1 / (2 * pi * f) ^ 2
          \<and> L2 * C2 = 1 / (2 * pi * f) ^ 2
          \<and> C2 < C1 \<and> L1 < L2 \<and> L1 / a1 = L2 / a2)
         \<and> (\<exists>C1 L1 C2 L2 c1 l1 c2 l2.
            derive_double e_double h_double (literal 250 6) (literal 5 9) = Inr (C1, L1)
          \<and> derive_double e_double h_double (literal 300 6) (literal 5 9) = Inr (C2, L2)
          \<and> inverse_omega2_double (literal 5 9) = Inr (fmul L1 C1)
          \<and> fmul L2 C2 = fmul L1 C1
          \<and> value_of C1 = Some c1 \<and> value_of C2 = Some c2 \<and> c2 < c1
          \<and> value_of L1 = Some l1 \<and> value_of L2 = Some l2 \<and> l1 < l2)"
proof -
  let ?C1 = "spec_C e_charge h_planck a1"
  let ?C2 = "spec_C e_charge h_planck a2"
  have a2: "0 < a2" using assms by simp
  have d1: "derive e_charge h_planck a1 f = Inr (?C1, spec_L f ?C1)"
    using assms constants_pos by (simp add: derive_spec)
  have d2: "derive e_charge h_planck a2 f = Inr (?C2, spec_L f ?C2)"
    using a2 assms constants_pos by (simp add: derive_spec)
  have c1: "0 < ?C1"
    using assms constants_pos by (simp add: spec_C_pos)
  have c2: "0 < ?C2"
    using a2 constants_pos by (simp add: spec_C_pos)
  have p1: "spec_L f ?C1 * ?C1 = 1 / (2 * pi * f) ^ 2"
    using c1 assms by (simp add: spec_product)
  have p2: "spec_L f ?C2 * ?C2 = 1 / (2 * pi * f) ^ 2"
    using c2 assms by (simp add: spec_product)
  have cless: "?C2 < ?C1"
    using assms constants_pos by (simp add: spec_C_antimono)
  have lless: "spec_L f ?C1 < spec_L f ?C2"
    using c2 cless assms by (simp add: spec_L_antimono)
  have ratio: "spec_L f ?C1 / a1 = spec_L f ?C2 / a2"
    using assms a2 constants_pos by (simp add: spec_L_def spec_C_def field_simps)
  have exact: "\<exists>C1 L1 C2 L2.
            derive e_charge h_planck a1 f = Inr (C1, L1)
          \<and> derive e_charge h_planck a2 f = Inr (C2, L2)
          \<and> L1 * C1 = 1 / (2 * pi * f) ^ 2
          \<and> L2 * C2 = 1 / (2 * pi * f) ^ 2
          \<and> C2 < C1 \<and> L1 < L2 \<and> L1 / a1 = L2 / a2"
    using d1 d2 p1 p2 cless lless ratio by blast
  let ?D1 = "Finite 6138670754400629 (- 96)"
  let ?M1 = "Finite 7904513673411353 (- 79)"
  let ?D2 = "Finite 5115558962000525 (- 96)"
  let ?M2 = "Finite 4742708204046811 (- 78)"
  have q1: "fmul ?M1 ?D1 = Finite 5387158154538403 (- 122)"
    by (simp add: binary64_steps del: fmul.simps)
  have q2: "fmul ?M2 ?D2 = Finite 5387158154538403 (- 122)"
    by (simp add: binary64_steps del: fmul.simps)
  have w: "inverse_omega2_double (literal 5 9) = Inr (fmul ?M1 ?D1)"
    by (simp only: q1 inverse_omega2_double_5e9)
  have e: "fmul ?M2 ?D2 = fmul ?M1 ?D1"
    by (simp only: q1 q2)
  have vc: "value_of ?D1 = Some (6138670754400629 / 2 ^ 96)"
    "value_of ?D2 = Some (5115558962000525 / 2 ^ 96)"
    "(5115558962000525 / 2 ^ 96 :: real) < 6138670754400629 / 2 ^ 96"
    by simp_all
  have vl: "value_of ?M1 = Some (7904513673411353 / 2 ^ 79)"
    "value_of ?M2 = Some (4742708204046811 / 2 ^ 78)"
    "(7904513673411353 / 2 ^ 79 :: real) < 4742708204046811 / 2 ^ 78"
    by simp_all
  have "\<exists>C1 L1 C2 L2 c1 l1 c2 l2.
            derive_double e_double h_double (literal 250 6) (literal 5 9) = Inr (C1, L1)
          \<and> derive_double e_double h_double (literal 300 6) (literal 5 9) = Inr (C2, L2)
          \<and> inverse_omega2_double (literal 5 9) = Inr (fmul L1 C1)
          \<and> fmul L2 C2 = fmul L1 C1
          \<and> value_of C1 = Some c1 \<and> value_of C2 = Some c2 \<and> c2 < c1
          \<and> value_of L1 = Some l1 \<and> value_of L2 = Some l2 \<and> l1 < l2"
    using derive_double_250e6_5e9 derive_double_300e6_5e9 w e vc vl by blast
  then show ?thesis
    using exact by blast
qed

theorem product_independent_of_alpha_witness:
  "(0::real) < 250 * 10 ^ 6 \<and> (250 * 10 ^ 6 :: real) < 300 * 10 ^ 6 \<and> (0::real) < 5 * 10 ^ 9
   \<and> (\<exists>C1 L1 C2 L2.
           derive e_charge h_planck (250 * 10 ^ 6) (5 * 10 ^ 9) = Inr (C1, L1)
         \<and> derive e_charge h_planck (300 * 10 ^ 6) (5 * 10 ^ 9) = Inr (C2, L2)
         \<and> L1 * C1 = 1 / (2 * pi * (5 * 10 ^ 9)) ^ 2
         \<and> L2 * C2 = 1 / (2 * pi * (5 * 10 ^ 9)) ^ 2
         \<and> C2 < C1 \<and> L1 < L2 \<and> L1 / (250 * 10 ^ 6) = L2 / (300 * 10 ^ 6))"
  using product_independent_of_alpha[of "250 * 10 ^ 6" "300 * 10 ^ 6" "5 * 10 ^ 9"] by simp

end
